theory Spec2Isabelle
  imports Main "HOL-Library.Word"
begin

section \<open>JavaScript values\<close>

text \<open>
  The SDK is TypeScript on top of the axios HTTP library. Strings are lists of code units;
  HOL characters are 8 bits wide, so the model covers the code units below 256 (the
  white space and line terminators above that range, such as U+2028, are outside it).
  A byte of a \<^verbatim>\<open>Uint8Array\<close> is an \<open>8 word\<close>.
\<close>

type_synonym byte = "8 word"

text \<open>
  The result of \<^verbatim>\<open>parseInt\<close>: \<open>NaN\<close>, an integer that a double holds exactly
  (magnitude at most \<open>2 ^ 53\<close>), or \<open>Imprecise\<close>, a double above that range whose value
  depends on rounding and is not modelled. Negative zero is not told apart from zero.
\<close>

datatype jsnum = NaN | Num int | Imprecise

definition isNaN :: "jsnum \<Rightarrow> bool" where
  "isNaN x = (x = NaN)"

text \<open>
  Decoded response data, as axios hands it over with the default response type: the
  parsed JSON value, or the text when the body is not JSON. A number is kept as its
  canonical rendering (\<^verbatim>\<open>String(n)\<close>). An object is the list of its own
  properties, one entry per key. No value of this type is a function: \<^verbatim>\<open>JSON.parse\<close>
  builds none.
\<close>

datatype jsval =
    JUndefined
  | JNull
  | JBool bool
  | JNum string
  | JStr string
  | JArr "jsval list"
  | JObj "(string \<times> jsval) list"

subsection \<open>String methods\<close>

definition endsWith :: "string \<Rightarrow> string \<Rightarrow> bool" where
  "endsWith s t = (length t \<le> length s \<and> drop (length s - length t) s = t)"

text \<open>\<^verbatim>\<open>s.slice(start, end)\<close>: a negative index counts from the end, both are clamped.\<close>

definition str_slice :: "string \<Rightarrow> int \<Rightarrow> int \<Rightarrow> string" where
  "str_slice s start fin =
     (let len = int (length s);
          from = (if start < 0 then max (len + start) 0 else min start len);
          to = (if fin < 0 then max (len + fin) 0 else min fin len)
      in take (nat (to - from)) (drop (nat from) s))"

subsection \<open>parseInt\<close>

text \<open>
  \<^verbatim>\<open>parseInt(string, radix)\<close> of ECMAScript, for an explicit radix: skip leading white
  space, read a sign, for radix 16 skip a \<^verbatim>\<open>0x\<close> prefix, take the longest prefix of
  digits of the radix; no digit at all gives \<open>NaN\<close>.
\<close>

definition isWhiteSpace :: "char \<Rightarrow> bool" where
  "isWhiteSpace c = ((of_char c :: int) \<in> {9, 10, 11, 12, 13, 32, 160})"

definition digitVal :: "char \<Rightarrow> int option" where
  "digitVal c =
     (let n = (of_char c :: int) in
      if 48 \<le> n \<and> n \<le> 57 then Some (n - 48)
      else if 97 \<le> n \<and> n \<le> 122 then Some (n - 87)
      else if 65 \<le> n \<and> n \<le> 90 then Some (n - 55)
      else None)"

definition isRadixDigit :: "int \<Rightarrow> char \<Rightarrow> bool" where
  "isRadixDigit R c = (case digitVal c of Some d \<Rightarrow> d < R | None \<Rightarrow> False)"

definition stripSign :: "string \<Rightarrow> int \<times> string" where
  "stripSign s =
     (case s of
        [] \<Rightarrow> (1, [])
      | c # r \<Rightarrow> if c = CHR ''-'' then (- 1, r) else if c = CHR ''+'' then (1, r) else (1, s))"

definition stripHexPrefix :: "string \<Rightarrow> string" where
  "stripHexPrefix s =
     (case s of
        c # d # r \<Rightarrow> if c = CHR ''0'' \<and> (d = CHR ''x'' \<or> d = CHR ''X'') then r else s
      | _ \<Rightarrow> s)"

definition digitsValue :: "int \<Rightarrow> string \<Rightarrow> int" where
  "digitsValue R z = foldl (\<lambda>a c. a * R + (case digitVal c of Some d \<Rightarrow> d | None \<Rightarrow> 0)) 0 z"

definition parseInt :: "string \<Rightarrow> int \<Rightarrow> jsnum" where
  "parseInt s R =
     (let (sgn, s1) = stripSign (dropWhile isWhiteSpace s);
          s2 = (if R = 16 then stripHexPrefix s1 else s1);
          z = takeWhile (isRadixDigit R) s2
      in if R < 2 \<or> 36 < R then NaN
         else if z = [] then NaN
         else if digitsValue R z \<le> 2 ^ 53 then Num (sgn * digitsValue R z)
         else Imprecise)"

section \<open>Errors\<close>

text \<open>
  What axios resolves a request with. \<open>data\<close> is the decoded body (the default response
  type) and \<open>raw\<close> the body's octets (what \<^verbatim>\<open>res.data\<close> is under
  \<^verbatim>\<open>responseType: 'arraybuffer'\<close>); the model assumes no relation between the two.
\<close>

record response =
  status :: nat
  raw :: "byte list"
  data :: jsval

text \<open>
  Every \<^verbatim>\<open>throw\<close> of the source and every rejection it can meet is a value:
  the SDK's own \<^verbatim>\<open>SdkErr\<close> and \<^verbatim>\<open>InternalServerError\<close> with their messages, the
  \<^verbatim>\<open>AxiosError\<close> axios rejects with (its message, and the response when there was
  one), the engine's \<^verbatim>\<open>TypeError\<close> (its message differs between engines and is left
  out), and a plain \<^verbatim>\<open>Error\<close>.
\<close>

datatype error =
    SdkErr string
  | InternalServerError string
  | AxiosError string "response option"
  | TypeError
  | Error string

subsection \<open>Conversions to strings\<close>

fun showNat :: "nat \<Rightarrow> string" where
  "showNat n = (if n < 10 then [char_of (48 + n)] else showNat (n div 10) @ [char_of (48 + n mod 10)])"

declare showNat.simps [simp del]

fun joinWith :: "string \<Rightarrow> string list \<Rightarrow> string" where
  "joinWith sep [] = []"
| "joinWith sep [x] = x"
| "joinWith sep (x # y # ys) = x @ sep @ joinWith sep (y # ys)"

text \<open>
  \<^verbatim>\<open>String(v)\<close>, which a template literal applies. An object is rendered by the
  inherited \<^verbatim>\<open>toString\<close>; when an own property of the data shadows \<^verbatim>\<open>toString\<close>
  the conversion finds nothing callable that returns a primitive and throws.
  An array joins its elements with commas, \<^verbatim>\<open>null\<close> and \<^verbatim>\<open>undefined\<close> as the
  empty string.
\<close>

fun toStr :: "jsval \<Rightarrow> error + string"
  and toStrElems :: "jsval list \<Rightarrow> error + string list" where
  "toStr JUndefined = Inr ''undefined''"
| "toStr JNull = Inr ''null''"
| "toStr (JBool b) = Inr (if b then ''true'' else ''false'')"
| "toStr (JNum r) = Inr r"
| "toStr (JStr s) = Inr s"
| "toStr (JArr xs) = (case toStrElems xs of Inl e \<Rightarrow> Inl e | Inr ss \<Rightarrow> Inr (joinWith '','' ss))"
| "toStr (JObj kvs) =
     (if ''toString'' \<in> fst ` set kvs then Inl TypeError
      else Inr ''[object Object]'')"
| "toStrElems [] = Inr []"
| "toStrElems (x # xs) =
     (case (if x = JUndefined \<or> x = JNull then Inr [] else toStr x) of
        Inl e \<Rightarrow> Inl e
      | Inr s \<Rightarrow> (case toStrElems xs of Inl e \<Rightarrow> Inl e | Inr ss \<Rightarrow> Inr (s # ss)))"

text \<open>
  \<^verbatim>\<open>JSON.stringify(v)\<close>: \<^verbatim>\<open>undefined\<close> for \<^verbatim>\<open>undefined\<close>, which an array renders
  as \<^verbatim>\<open>null\<close> and an object leaves out with its key. A number that is not finite
  (a body such as \<^verbatim>\<open>1e999\<close> parses to \<^verbatim>\<open>Infinity\<close>) is rendered as \<^verbatim>\<open>null\<close>.
\<close>

definition hexDigit :: "nat \<Rightarrow> char" where
  "hexDigit n = (if n < 10 then char_of (48 + n) else char_of (87 + n))"

definition escapeChar :: "char \<Rightarrow> string" where
  "escapeChar c =
     (let n = (of_char c :: nat) in
      if n = 34 then [CHR 0x5C, CHR 0x22]
      else if n = 92 then [CHR 0x5C, CHR 0x5C]
      else if n = 8 then [CHR 0x5C, CHR ''b'']
      else if n = 9 then [CHR 0x5C, CHR ''t'']
      else if n = 10 then [CHR 0x5C, CHR ''n'']
      else if n = 12 then [CHR 0x5C, CHR ''f'']
      else if n = 13 then [CHR 0x5C, CHR ''r'']
      else if n < 32 then [CHR 0x5C, CHR ''u'', CHR ''0'', CHR ''0'', hexDigit (n div 16), hexDigit (n mod 16)]
      else [c])"

definition quoteJSON :: "string \<Rightarrow> string" where
  "quoteJSON s = [CHR 0x22] @ concat (map escapeChar s) @ [CHR 0x22]"

fun stringify :: "jsval \<Rightarrow> string"
  and stringifyElems :: "jsval list \<Rightarrow> string list"
  and stringifyProps :: "(string \<times> jsval) list \<Rightarrow> string list" where
  "stringify JUndefined = ''null''"
| "stringify JNull = ''null''"
| "stringify (JBool b) = (if b then ''true'' else ''false'')"
| "stringify (JNum r) = (if r \<in> {''Infinity'', ''-Infinity'', ''NaN''} then ''null'' else r)"
| "stringify (JStr s) = quoteJSON s"
| "stringify (JArr xs) = ''['' @ joinWith '','' (stringifyElems xs) @ '']''"
| "stringify (JObj kvs) = ''{'' @ joinWith '','' (stringifyProps kvs) @ ''}''"
| "stringifyElems [] = []"
| "stringifyElems (x # xs) = stringify x # stringifyElems xs"
| "stringifyProps [] = []"
| "stringifyProps ((k, v) # kvs) =
     (if v = JUndefined then stringifyProps kvs
      else (quoteJSON k @ '':'' @ stringify v) # stringifyProps kvs)"

definition JSON_stringify :: "jsval \<Rightarrow> string option" where
  "JSON_stringify v = (if v = JUndefined then None else Some (stringify v))"

text \<open>
  \<^verbatim>\<open>typeof d === "string" ? d : JSON.stringify(d)\<close>, then put into a template
  literal, where \<^verbatim>\<open>undefined\<close> reads \<^verbatim>\<open>undefined\<close>.
\<close>

definition bodyText :: "jsval \<Rightarrow> string" where
  "bodyText d =
     (case d of
        JStr s \<Rightarrow> s
      | _ \<Rightarrow> (case JSON_stringify d of Some s \<Rightarrow> s | None \<Rightarrow> ''undefined''))"

definition truthy :: "jsval \<Rightarrow> bool" where
  "truthy v =
     (case v of
        JUndefined \<Rightarrow> False
      | JNull \<Rightarrow> False
      | JBool b \<Rightarrow> b
      | JNum r \<Rightarrow> r \<noteq> ''0'' \<and> r \<noteq> ''NaN''
      | JStr s \<Rightarrow> s \<noteq> []
      | _ \<Rightarrow> True)"

subsection \<open>Property access and calls\<close>

text \<open>
  \<^verbatim>\<open>v.name\<close> for the names the source reads off response data (\<^verbatim>\<open>url\<close>,
  \<^verbatim>\<open>uuid\<close>, \<^verbatim>\<open>json\<close>), none of which a prototype provides: reading a property
  of \<^verbatim>\<open>null\<close> or \<^verbatim>\<open>undefined\<close> throws, an object gives its own property, and
  everything else gives \<^verbatim>\<open>undefined\<close>.
\<close>

definition getProp :: "jsval \<Rightarrow> string \<Rightarrow> error + jsval" where
  "getProp v name =
     (case v of
        JUndefined \<Rightarrow> Inl TypeError
      | JNull \<Rightarrow> Inl TypeError
      | JObj kvs \<Rightarrow> Inr (case map_of kvs name of Some x \<Rightarrow> x | None \<Rightarrow> JUndefined)
      | _ \<Rightarrow> Inr JUndefined)"

text \<open>
  \<^verbatim>\<open>v.name()\<close>: the property is read and then called. Whatever it holds is data, not
  a function, so the call throws.
\<close>

definition callMethod :: "jsval \<Rightarrow> string \<Rightarrow> error + jsval" where
  "callMethod v name = (case getProp v name of Inl e \<Rightarrow> Inl e | Inr f \<Rightarrow> Inl TypeError)"

section \<open>Configuration from the environment\<close>

type_synonym env = "string \<rightharpoonup> string"

definition API_KEY_HEADER :: string where
  "API_KEY_HEADER = ''x-api-key''"

definition VERSION_HEADER :: string where
  "VERSION_HEADER = ''x-risc0-version''"

definition API_URL_ENVVAR :: string where
  "API_URL_ENVVAR = ''BONSAI_API_URL''"

definition API_KEY_ENVVAR :: string where
  "API_KEY_ENVVAR = ''BONSAI_API_KEY''"

definition TIMEOUT_ENVVAR :: string where
  "TIMEOUT_ENVVAR = ''BONSAI_TIMEOUT_MS''"

definition DEFAULT_TIMEOUT :: jsnum where
  "DEFAULT_TIMEOUT = Num 30000"

text \<open>
  \<^verbatim>\<open>process.env[name] != undefined\<close> holds exactly when the variable is set: the values
  of \<^verbatim>\<open>process.env\<close> are strings. The chain ends in a \<^verbatim>\<open>throw\<close>.
\<close>

definition getURL :: "env \<Rightarrow> error + string" where
  "getURL env =
     (if env (''REACT_APP_'' @ API_URL_ENVVAR) \<noteq> None then Inr (the (env (''REACT_APP_'' @ API_URL_ENVVAR)))
      else if env (''NEXT_PUBLIC_'' @ API_URL_ENVVAR) \<noteq> None then Inr (the (env (''NEXT_PUBLIC_'' @ API_URL_ENVVAR)))
      else if env (''GATSBY_'' @ API_URL_ENVVAR) \<noteq> None then Inr (the (env (''GATSBY_'' @ API_URL_ENVVAR)))
      else if env (''VUE_APP_'' @ API_URL_ENVVAR) \<noteq> None then Inr (the (env (''VUE_APP_'' @ API_URL_ENVVAR)))
      else if env (''VITE_'' @ API_URL_ENVVAR) \<noteq> None then Inr (the (env (''VITE_'' @ API_URL_ENVVAR)))
      else if env (''PUBLIC_'' @ API_URL_ENVVAR) \<noteq> None then Inr (the (env (''PUBLIC_'' @ API_URL_ENVVAR)))
      else if env (''NUXT_ENV_'' @ API_URL_ENVVAR) \<noteq> None then Inr (the (env (''NUXT_ENV_'' @ API_URL_ENVVAR)))
      else if env API_URL_ENVVAR \<noteq> None then Inr (the (env API_URL_ENVVAR))
      else Inl (Error ''bonsai sdk env variables are not set!''))"

definition getKey :: "env \<Rightarrow> error + string" where
  "getKey env =
     (if env (''REACT_APP_'' @ API_KEY_ENVVAR) \<noteq> None then Inr (the (env (''REACT_APP_'' @ API_KEY_ENVVAR)))
      else if env (''NEXT_PUBLIC_'' @ API_KEY_ENVVAR) \<noteq> None then Inr (the (env (''NEXT_PUBLIC_'' @ API_KEY_ENVVAR)))
      else if env (''GATSBY_'' @ API_KEY_ENVVAR) \<noteq> None then Inr (the (env (''GATSBY_'' @ API_KEY_ENVVAR)))
      else if env (''VUE_APP_'' @ API_KEY_ENVVAR) \<noteq> None then Inr (the (env (''VUE_APP_'' @ API_KEY_ENVVAR)))
      else if env (''VITE_'' @ API_KEY_ENVVAR) \<noteq> None then Inr (the (env (''VITE_'' @ API_KEY_ENVVAR)))
      else if env (''PUBLIC_'' @ API_KEY_ENVVAR) \<noteq> None then Inr (the (env (''PUBLIC_'' @ API_KEY_ENVVAR)))
      else if env (''NUXT_ENV_'' @ API_KEY_ENVVAR) \<noteq> None then Inr (the (env (''NUXT_ENV_'' @ API_KEY_ENVVAR)))
      else if env API_KEY_ENVVAR \<noteq> None then Inr (the (env API_KEY_ENVVAR))
      else Inl (Error ''bonsai sdk env variables are not set!''))"

text \<open>
  The axios instance is what \<^verbatim>\<open>axios.create\<close> was given: the timeout (\<open>None\<close> is
  \<^verbatim>\<open>undefined\<close>, no timeout) and the two headers. A non-empty string is truthy.
\<close>

record AxiosInstance =
  timeout :: "jsnum option"
  headers :: "(string \<times> string) list"

definition constructReqClient :: "env \<Rightarrow> string \<Rightarrow> string \<Rightarrow> AxiosInstance" where
  "constructReqClient env apiKey risc0Version =
     (let hs = [(API_KEY_HEADER, apiKey), (VERSION_HEADER, risc0Version)];
          envTimeout = env TIMEOUT_ENVVAR;
          t = (if envTimeout = Some ''none'' then None
               else (case envTimeout of
                       Some s \<Rightarrow>
                         if s \<noteq> [] then
                           (let parsed = parseInt s 10
                            in Some (if isNaN parsed then DEFAULT_TIMEOUT else parsed))
                         else Some DEFAULT_TIMEOUT
                     | None \<Rightarrow> Some DEFAULT_TIMEOUT))
      in \<lparr>timeout = t, headers = hs\<rparr>)"

record Client =
  url :: string
  client :: AxiosInstance

text \<open>
  \<^verbatim>\<open>fromParts\<close> wraps \<^verbatim>\<open>constructReqClient\<close> in a \<^verbatim>\<open>try\<close>; nothing in
  \<^verbatim>\<open>constructReqClient\<close> throws, so the \<^verbatim>\<open>catch\<close> has no branch here.
\<close>

definition fromParts :: "env \<Rightarrow> string \<Rightarrow> string \<Rightarrow> string \<Rightarrow> Client" where
  "fromParts env u k risc0Version =
     (let c = constructReqClient env k risc0Version;
          normalizedUrl = (if endsWith u ''/'' then str_slice u 0 (- 1) else u)
      in \<lparr>url = normalizedUrl, client = c\<rparr>)"

text \<open>\<^verbatim>\<open>!apiUrl\<close> holds for the empty string, the only falsy string.\<close>

definition fromEnv :: "env \<Rightarrow> string \<Rightarrow> error + Client" where
  "fromEnv env risc0Version =
     (case getURL env of
        Inl e \<Rightarrow> Inl e
      | Inr apiUrl \<Rightarrow>
          if apiUrl = [] then Inl (SdkErr ''Missing API URL'')
          else
            (let normalizedUrl = (if endsWith apiUrl ''/'' then str_slice apiUrl 0 (- 1) else apiUrl)
             in case getKey env of
                  Inl e \<Rightarrow> Inl e
                | Inr apiKey \<Rightarrow>
                    if apiKey = [] then Inl (SdkErr ''Missing API Key'')
                    else Inr \<lparr>url = normalizedUrl, client = constructReqClient env apiKey risc0Version\<rparr>))"

text \<open>
  The lookup as the specification words it: an ordered list of prefixes, each put in
  front of the variable's name; the first variable that is set gives the value.
\<close>

definition ENV_PREFIXES :: "string list" where
  "ENV_PREFIXES =
     [''REACT_APP_'', ''NEXT_PUBLIC_'', ''GATSBY_'', ''VUE_APP_'', ''VITE_'', ''PUBLIC_'', ''NUXT_ENV_'', '''']"

fun probe :: "env \<Rightarrow> string list \<Rightarrow> string \<Rightarrow> string option" where
  "probe env [] name = None"
| "probe env (p # ps) name = (case env (p @ name) of Some v \<Rightarrow> Some v | None \<Rightarrow> probe env ps name)"

section \<open>HTTP through axios\<close>

datatype verb = GET | PUT | POST | DELETE

datatype payload = NoBody | BytesBody "byte list" | JsonBody jsval

text \<open>
  A request as it leaves the client. The address is whatever value the source hands to
  axios: a string it built itself, or the \<^verbatim>\<open>url\<close> property of response data, which
  is a string only when the server sent one.
\<close>

record request =
  rq_verb :: verb
  rq_url :: jsval
  rq_headers :: "(string \<times> string) list"
  rq_body :: payload

text \<open>
  The other side of the wire: given the requests made so far and the next one, either no
  response arrives (a network failure or a timeout, with axios's message) or a response
  does. Every operation below threads the list of requests made.
\<close>

datatype reply = NoReply string | Reply response

type_synonym network = "request list \<Rightarrow> request \<Rightarrow> reply"

type_synonym 'a io = "request list \<Rightarrow> (error + 'a) \<times> request list"

definition return_io :: "'a \<Rightarrow> 'a io" where
  "return_io x tr = (Inr x, tr)"

definition throw_io :: "error \<Rightarrow> 'a io" where
  "throw_io e tr = (Inl e, tr)"

definition lift_io :: "error + 'a \<Rightarrow> 'a io" where
  "lift_io r tr = (r, tr)"

definition bind_io :: "'a io \<Rightarrow> ('a \<Rightarrow> 'b io) \<Rightarrow> 'b io" where
  "bind_io m f tr = (case m tr of (Inl e, tr') \<Rightarrow> (Inl e, tr') | (Inr x, tr') \<Rightarrow> f x tr')"

text \<open>
  axios (a library, not part of the repository) is modelled from its documentation. A
  request is sent; without a response the promise rejects with an \<^verbatim>\<open>AxiosError\<close>;
  with one, the promise resolves when \<^verbatim>\<open>validateStatus\<close> accepts the status (or the
  status is 0) and rejects with \<^verbatim>\<open>Request failed with status code N\<close> otherwise. The
  instance comes from \<^verbatim>\<open>axios.create\<close> with a timeout and headers only, so the
  default \<^verbatim>\<open>validateStatus\<close> applies wherever a call passes none: it accepts 200 to 299.
  The rejection is returned as the message and the response, for the callers that catch it.
  The source counts on this behaviour itself: \<^verbatim>\<open>putData\<close> reads \<^verbatim>\<open>error.response\<close>
  off the \<^verbatim>\<open>AxiosError\<close> it catches, and \<^verbatim>\<open>receiptDownload\<close>, \<^verbatim>\<open>imageDelete\<close>
  and \<^verbatim>\<open>inputDelete\<close> pass \<^verbatim>\<open>validateStatus: () => true\<close> to see every status.
\<close>

definition defaultValidateStatus :: "nat \<Rightarrow> bool" where
  "defaultValidateStatus st = (200 \<le> st \<and> st < 300)"

definition axios_request ::
  "AxiosInstance \<Rightarrow> (nat \<Rightarrow> bool) \<Rightarrow> network \<Rightarrow> verb \<Rightarrow> jsval \<Rightarrow> payload \<Rightarrow>
   request list \<Rightarrow> ((string \<times> response option) + response) \<times> request list" where
  "axios_request inst validateStatus net v u b tr =
     (let rq = \<lparr>rq_verb = v, rq_url = u, rq_headers = headers inst, rq_body = b\<rparr>
      in case net tr rq of
           NoReply msg \<Rightarrow> (Inl (msg, None), tr @ [rq])
         | Reply res \<Rightarrow>
             if status res = 0 \<or> validateStatus (status res) then (Inr res, tr @ [rq])
             else (Inl (''Request failed with status code '' @ showNat (status res), Some res),
                   tr @ [rq]))"

text \<open>A call outside any \<^verbatim>\<open>try\<close>: the rejection is the operation's error.\<close>

definition axios_call ::
  "AxiosInstance \<Rightarrow> (nat \<Rightarrow> bool) \<Rightarrow> network \<Rightarrow> verb \<Rightarrow> jsval \<Rightarrow> payload \<Rightarrow> response io" where
  "axios_call inst validateStatus net v u b tr =
     (case axios_request inst validateStatus net v u b tr of
        (Inl (msg, r), tr') \<Rightarrow> (Inl (AxiosError msg r), tr')
      | (Inr res, tr') \<Rightarrow> (Inr res, tr'))"

section \<open>Session and SNARK handles\<close>

text \<open>
  The classes are not exported: a handle is only ever built from \<^verbatim>\<open>r.uuid\<close> of a
  response, so its \<^verbatim>\<open>uuid\<close> is whatever the server sent there, a string only when
  the server sent one. \<^verbatim>\<open>status\<close> puts it into the address with a template literal.
\<close>

datatype SessionId = SessionId (uuid: jsval)

datatype SnarkId = SnarkId (snark_uuid: jsval)

definition SessionId_status :: "SessionId \<Rightarrow> Client \<Rightarrow> network \<Rightarrow> jsval io" where
  "SessionId_status sid c net =
     bind_io (lift_io (toStr (uuid sid))) (\<lambda>i.
     bind_io (axios_call (client c) defaultValidateStatus net GET
                (JStr (url c @ ''/sessions/status/'' @ i)) NoBody) (\<lambda>res.
       if \<not> (status res = 200) then
         bind_io (lift_io (toStr (data res))) (\<lambda>body.
           throw_io (InternalServerError (''Internal server error: '' @ body)))
       else return_io (data res)))"

definition SnarkId_status :: "SnarkId \<Rightarrow> Client \<Rightarrow> network \<Rightarrow> jsval io" where
  "SnarkId_status sid c net =
     bind_io (lift_io (toStr (snark_uuid sid))) (\<lambda>i.
     bind_io (axios_call (client c) defaultValidateStatus net GET
                (JStr (url c @ ''/snark/status/'' @ i)) NoBody) (\<lambda>res.
       if \<not> (status res = 200) then
         bind_io (lift_io (toStr (data res))) (\<lambda>body.
           throw_io (InternalServerError (''Internal server error: '' @ body)))
       else return_io (data res)))"

section \<open>The client's operations\<close>

datatype ImageExistsOpt = Exists | New jsval

definition getImageUploadUrl :: "Client \<Rightarrow> network \<Rightarrow> string \<Rightarrow> ImageExistsOpt io" where
  "getImageUploadUrl c net imageId =
     bind_io (axios_call (client c) defaultValidateStatus net GET
                (JStr (url c @ ''/images/upload/'' @ imageId)) NoBody) (\<lambda>res.
       if status res = 204 then return_io Exists
       else if \<not> (status res = 200) then
         bind_io (lift_io (toStr (data res))) (\<lambda>body.
           throw_io (InternalServerError (''Internal server error: '' @ body)))
       else bind_io (lift_io (callMethod (data res) ''json'')) (\<lambda>d. return_io (New d)))"

text \<open>
  \<^verbatim>\<open>putData\<close> catches what its \<^verbatim>\<open>try\<close> throws. A rejection of axios becomes an
  \<^verbatim>\<open>InternalServerError\<close> with \<^verbatim>\<open>error.response?.data || error.message\<close>; the
  \<^verbatim>\<open>Error\<close> thrown inside the \<^verbatim>\<open>try\<close> on a resolved status outside 200 to 299 is no
  axios error and is thrown again with a prefix.
\<close>

definition putData :: "Client \<Rightarrow> network \<Rightarrow> jsval \<Rightarrow> payload \<Rightarrow> unit io" where
  "putData c net u b tr =
     (case axios_request (client c) defaultValidateStatus net PUT u b tr of
        (Inr res, tr') \<Rightarrow>
          if status res < 200 \<or> 300 \<le> status res then
            (Inl (Error (''An unexpected error occurred: '' @
                         ''Request failed with status code '' @ showNat (status res))), tr')
          else (Inr (), tr')
      | (Inl (msg, r), tr') \<Rightarrow>
          (let errorMessage =
                 (case r of
                    Some res \<Rightarrow> if truthy (data res) then data res else JStr msg
                  | None \<Rightarrow> JStr msg)
           in case toStr errorMessage of
                Inl e \<Rightarrow> (Inl e, tr')
              | Inr m \<Rightarrow> (Inl (InternalServerError (''Internal server error: '' @ m)), tr')))"

definition uploadImg :: "Client \<Rightarrow> network \<Rightarrow> string \<Rightarrow> byte list \<Rightarrow> bool io" where
  "uploadImg c net imageId buf =
     bind_io (getImageUploadUrl c net imageId) (\<lambda>resOrExists.
       case resOrExists of
         Exists \<Rightarrow> return_io True
       | New d \<Rightarrow>
           bind_io (lift_io (getProp d ''url'')) (\<lambda>u.
           bind_io (putData c net u (BytesBody buf)) (\<lambda>_. return_io False)))"

definition getUploadUrl :: "Client \<Rightarrow> network \<Rightarrow> string \<Rightarrow> jsval io" where
  "getUploadUrl c net route =
     bind_io (axios_call (client c) defaultValidateStatus net GET
                (JStr (url c @ ''/'' @ route @ ''/upload'')) NoBody) (\<lambda>res.
       if \<not> (status res = 200) then
         bind_io (lift_io (toStr (data res))) (\<lambda>body.
           throw_io (InternalServerError (''Internal server error: '' @ body)))
       else return_io (data res))"

text \<open>
  \<^verbatim>\<open>hexString.match(/.{1,2}/g)\<close>: from left to right, one or two characters that are
  not line terminators, as many as there are; \<^verbatim>\<open>null\<close> when nothing matches.
\<close>

definition isLineTerminator :: "char \<Rightarrow> bool" where
  "isLineTerminator c = ((of_char c :: int) \<in> {10, 13})"

fun matchPairs :: "string \<Rightarrow> string list" where
  "matchPairs [] = []"
| "matchPairs [c] = (if isLineTerminator c then [] else [[c]])"
| "matchPairs (c # d # r) =
     (if isLineTerminator c then matchPairs (d # r)
      else if isLineTerminator d then [c] # matchPairs (d # r)
      else [c, d] # matchPairs r)"

definition str_match :: "string \<Rightarrow> string list option" where
  "str_match s = (if matchPairs s = [] then None else Some (matchPairs s))"

text \<open>
  \<^verbatim>\<open>Uint8Array.from\<close> stores each number modulo 256 and \<open>NaN\<close> as 0. \<open>Imprecise\<close>
  does not come out of a match, which is two characters at most.
\<close>

definition toUint8 :: "jsnum \<Rightarrow> byte" where
  "toUint8 x = (case x of NaN \<Rightarrow> 0 | Num n \<Rightarrow> word_of_int n | Imprecise \<Rightarrow> 0)"

definition fromHexString :: "string \<Rightarrow> error + byte list" where
  "fromHexString hexString =
     (case str_match hexString of
        None \<Rightarrow> Inl TypeError
      | Some ms \<Rightarrow> Inr (map (\<lambda>b. toUint8 (parseInt b 16)) ms))"

definition uploadInput :: "Client \<Rightarrow> network \<Rightarrow> string \<Rightarrow> jsval io" where
  "uploadInput c net encoded =
     bind_io (lift_io (fromHexString encoded)) (\<lambda>bytes.
       let jsonCompatibleArray = tl bytes;
           buf = jsonCompatibleArray
       in bind_io (getUploadUrl c net ''inputs'') (\<lambda>uploadData.
          bind_io (lift_io (getProp uploadData ''url'')) (\<lambda>u.
          bind_io (putData c net u (BytesBody buf)) (\<lambda>_.
          lift_io (getProp uploadData ''uuid'')))))"

definition uploadReceipt :: "Client \<Rightarrow> network \<Rightarrow> byte list \<Rightarrow> jsval io" where
  "uploadReceipt c net buf =
     bind_io (getUploadUrl c net ''receipts'') (\<lambda>uploadData.
     bind_io (lift_io (getProp uploadData ''url'')) (\<lambda>u.
     bind_io (putData c net u (BytesBody buf)) (\<lambda>_.
     lift_io (getProp uploadData ''uuid''))))"

text \<open>
  \<^verbatim>\<open>download\<close> asks for an \<^verbatim>\<open>arraybuffer\<close>, so \<^verbatim>\<open>res.data\<close> is the body's
  octets; whatever the call rejects with is wrapped in an \<^verbatim>\<open>SdkErr\<close>.
\<close>

definition download :: "Client \<Rightarrow> network \<Rightarrow> jsval \<Rightarrow> byte list io" where
  "download c net u tr =
     (case axios_request (client c) defaultValidateStatus net GET u NoBody tr of
        (Inr res, tr') \<Rightarrow> (Inr (raw res), tr')
      | (Inl (msg, r), tr') \<Rightarrow> (Inl (SdkErr (''Download failed: '' @ msg)), tr'))"

definition receiptDownload :: "Client \<Rightarrow> network \<Rightarrow> SessionId \<Rightarrow> byte list io" where
  "receiptDownload c net sessionId =
     bind_io (lift_io (toStr (uuid sessionId))) (\<lambda>i.
     bind_io (axios_call (client c) (\<lambda>_. True) net GET
                (JStr (url c @ ''/receipts/'' @ i)) NoBody) (\<lambda>res.
       if status res < 200 \<or> 300 \<le> status res then
         (if status res = 404 then throw_io (SdkErr ''ReceiptNotFound'')
          else throw_io (InternalServerError (''Internal server error: '' @ bodyText (data res))))
       else bind_io (lift_io (getProp (data res) ''url'')) (\<lambda>u. download c net u)))"

text \<open>A number argument is kept as its rendering, as in \<open>JNum\<close>.\<close>

definition createSessionWithLimit ::
  "Client \<Rightarrow> network \<Rightarrow> string \<Rightarrow> string \<Rightarrow> string list \<Rightarrow> bool \<Rightarrow> string option \<Rightarrow> SessionId io" where
  "createSessionWithLimit c net imgId inputId assumptions executeOnly execCycleLimit =
     (let req = JObj [(''img'', JStr imgId),
                      (''input'', JStr inputId),
                      (''assumptions'', JArr (map JStr assumptions)),
                      (''execute_only'', JBool executeOnly),
                      (''exec_cycle_limit'',
                         (case execCycleLimit of None \<Rightarrow> JUndefined | Some n \<Rightarrow> JNum n))]
      in bind_io (axios_call (client c) defaultValidateStatus net POST
                    (JStr (url c @ ''/sessions/create'')) (JsonBody req)) (\<lambda>res.
           if status res < 200 \<or> 300 \<le> status res then
             throw_io (InternalServerError (''Internal server error: '' @ bodyText (data res)))
           else bind_io (lift_io (getProp (data res) ''uuid'')) (\<lambda>r. return_io (SessionId r))))"

definition createSession ::
  "Client \<Rightarrow> network \<Rightarrow> string \<Rightarrow> string \<Rightarrow> string list \<Rightarrow> bool \<Rightarrow> SessionId io" where
  "createSession c net imgId inputId assumptions executeOnly =
     bind_io (createSessionWithLimit c net imgId inputId assumptions executeOnly None) (\<lambda>sessionId.
       return_io sessionId)"

section \<open>The specification's wording\<close>

text \<open>
  Reading a string of decimal digits as an integer, place by place: what the timeout rule
  means by parsing an integer.
\<close>

definition isDecimalDigit :: "char \<Rightarrow> bool" where
  "isDecimalDigit c = (48 \<le> (of_char c :: int) \<and> (of_char c :: int) \<le> 57)"

fun decimalValue :: "string \<Rightarrow> int" where
  "decimalValue [] = 0"
| "decimalValue (c # cs) = (of_char c - 48) * 10 ^ length cs + decimalValue cs"

text \<open>Stripping one trailing slash if present.\<close>

definition stripTrailingSlash :: "string \<Rightarrow> string" where
  "stripTrailingSlash u = (if u \<noteq> [] \<and> last u = CHR ''/'' then butlast u else u)"

text \<open>
  Decoding a hex string as the specification words it: two hex characters per byte, from
  the left; a last character left alone is a byte of its own.
\<close>

definition isHexDigit :: "char \<Rightarrow> bool" where
  "isHexDigit c =
     (let n = (of_char c :: int)
      in (48 \<le> n \<and> n \<le> 57) \<or> (65 \<le> n \<and> n \<le> 70) \<or> (97 \<le> n \<and> n \<le> 102))"

definition hexVal :: "char \<Rightarrow> int" where
  "hexVal c =
     (let n = (of_char c :: int)
      in if n \<le> 57 then n - 48 else if n \<le> 70 then n - 55 else n - 87)"

fun hexPairs :: "string \<Rightarrow> string list" where
  "hexPairs [] = []"
| "hexPairs [c] = [[c]]"
| "hexPairs (c # d # r) = [c, d] # hexPairs r"

definition hexByte :: "string \<Rightarrow> byte" where
  "hexByte p = word_of_int (foldl (\<lambda>a c. a * 16 + hexVal c) 0 p)"

definition decodeHex :: "string \<Rightarrow> byte list" where
  "decodeHex s = map hexByte (hexPairs s)"

text \<open>
  The text of a response body as the specification words it: a string body is carried as
  it is, any other body as its JSON text. The JSON text is written here from the JSON
  grammar: \<^verbatim>\<open>null\<close>, \<^verbatim>\<open>true\<close> and \<^verbatim>\<open>false\<close> as such, a finite number by
  its numeral, a string between double quotes with the quote, the backslash and the
  control characters below 32 escaped, an array as its elements between brackets and an
  object as its \<^verbatim>\<open>"key":value\<close> members between braces, both separated by commas
  and without white space. A member whose value is \<^verbatim>\<open>undefined\<close> is left out, and
  \<^verbatim>\<open>undefined\<close> or a number that is not finite inside an array or object reads
  \<^verbatim>\<open>null\<close>. A body that is \<^verbatim>\<open>undefined\<close> altogether has no JSON text and reads
  \<^verbatim>\<open>undefined\<close> in the message.
\<close>

definition commaSep :: "string list \<Rightarrow> string" where
  "commaSep xs = (case xs of [] \<Rightarrow> [] | x # r \<Rightarrow> x @ concat (map (\<lambda>y. CHR '','' # y) r))"

definition jsonEscape :: "char \<Rightarrow> string" where
  "jsonEscape c =
     (case map_of [(34, [CHR 0x5C, CHR 0x22]),
                   (92, [CHR 0x5C, CHR 0x5C]),
                   (8, [CHR 0x5C, CHR ''b'']),
                   (9, [CHR 0x5C, CHR ''t'']),
                   (10, [CHR 0x5C, CHR ''n'']),
                   (12, [CHR 0x5C, CHR ''f'']),
                   (13, [CHR 0x5C, CHR ''r''])] (of_char c :: nat) of
        Some e \<Rightarrow> e
      | None \<Rightarrow>
          if (of_char c :: nat) < 32
          then [CHR 0x5C, CHR ''u'', CHR ''0'', CHR ''0'',
                (if (of_char c :: nat) < 16 then CHR ''0'' else CHR ''1''),
                ''0123456789abcdef'' ! ((of_char c :: nat) mod 16)]
          else [c])"

definition jsonQuoted :: "string \<Rightarrow> string" where
  "jsonQuoted s = CHR 0x22 # concat (map jsonEscape s) @ [CHR 0x22]"

fun jsonText :: "jsval \<Rightarrow> string" where
  "jsonText JUndefined = ''null''"
| "jsonText JNull = ''null''"
| "jsonText (JBool b) = (if b then ''true'' else ''false'')"
| "jsonText (JNum r) = (if r = ''Infinity'' \<or> r = ''-Infinity'' \<or> r = ''NaN'' then ''null'' else r)"
| "jsonText (JStr s) = jsonQuoted s"
| "jsonText (JArr xs) = ''['' @ commaSep (map jsonText xs) @ '']''"
| "jsonText (JObj kvs) =
     ''{'' @ commaSep (map (\<lambda>(k, v). jsonQuoted k @ '':'' @ jsonText v)
                          (filter (\<lambda>(k, v). v \<noteq> JUndefined) kvs)) @ ''}''"

definition stringifiedBody :: "jsval \<Rightarrow> string" where
  "stringifiedBody d =
     (case d of JStr s \<Rightarrow> s | JUndefined \<Rightarrow> ''undefined'' | _ \<Rightarrow> jsonText d)"

section \<open>Properties of the configuration\<close>

lemma probe_None_iff: "probe env ps name = None \<longleftrightarrow> (\<forall>p\<in>set ps. env (p @ name) = None)"
  by (induction ps) (auto split: option.splits)

lemma getURL_probe:
  "getURL env = (case probe env ENV_PREFIXES API_URL_ENVVAR of
                   Some v \<Rightarrow> Inr v
                 | None \<Rightarrow> Inl (Error ''bonsai sdk env variables are not set!''))"
  by (auto simp: getURL_def ENV_PREFIXES_def split: option.splits)

lemma getKey_probe:
  "getKey env = (case probe env ENV_PREFIXES API_KEY_ENVVAR of
                   Some v \<Rightarrow> Inr v
                 | None \<Rightarrow> Inl (Error ''bonsai sdk env variables are not set!''))"
  by (auto simp: getKey_def ENV_PREFIXES_def split: option.splits)

lemma endsWith_slash: "endsWith u ''/'' \<longleftrightarrow> u \<noteq> [] \<and> last u = CHR ''/''"
proof (cases u rule: rev_cases)
  case Nil
  then show ?thesis by (simp add: endsWith_def)
next
  case (snoc ys y)
  then show ?thesis by (auto simp: endsWith_def)
qed

lemma str_slice_drop_last: "str_slice u 0 (- 1) = butlast u"
  by (cases u rule: rev_cases) (simp_all add: str_slice_def Let_def butlast_conv_take)

lemmas parseInt_eval = parseInt_def stripSign_def isWhiteSpace_def isRadixDigit_def digitVal_def
  digitsValue_def stripHexPrefix_def

lemma foldl_decimal:
  "list_all isDecimalDigit z \<Longrightarrow>
   foldl (\<lambda>a c. a * 10 + (case digitVal c of Some d \<Rightarrow> d | None \<Rightarrow> 0)) a z
     = a * 10 ^ length z + decimalValue z"
  by (induction z arbitrary: a) (auto simp: isDecimalDigit_def digitVal_def algebra_simps)

lemma digitsValue_decimal: "list_all isDecimalDigit z \<Longrightarrow> digitsValue 10 z = decimalValue z"
  by (simp add: digitsValue_def foldl_decimal)

lemma decimal_not_space: "isDecimalDigit c \<Longrightarrow> \<not> isWhiteSpace c"
  by (auto simp: isDecimalDigit_def isWhiteSpace_def)

lemma decimal_radix_digit: "isDecimalDigit c \<Longrightarrow> isRadixDigit 10 c"
  by (auto simp: isDecimalDigit_def isRadixDigit_def digitVal_def)

lemma decimal_not_sign: "isDecimalDigit c \<Longrightarrow> c \<noteq> CHR ''-'' \<and> c \<noteq> CHR ''+''"
  by (auto simp: isDecimalDigit_def)

lemma parseInt_decimal:
  assumes "s \<noteq> []" "list_all isDecimalDigit s" "decimalValue s \<le> 2 ^ 53"
  shows "parseInt s 10 = Num (decimalValue s)"
proof -
  obtain c cs where s: "s = c # cs" using assms(1) by (cases s) auto
  have c: "isDecimalDigit c" using assms(2) s by simp
  have dw: "dropWhile isWhiteSpace s = s" using c s decimal_not_space by simp
  have ss: "stripSign s = (1, s)" using c s decimal_not_sign by (simp add: stripSign_def)
  have tw: "takeWhile (isRadixDigit 10) s = s"
    using assms(2) decimal_radix_digit by (auto simp: list_all_iff intro: takeWhile_eq_all_conv[THEN iffD2])
  show ?thesis
    using assms(1,3) digitsValue_decimal [OF assms(2)]
    by (simp add: parseInt_def dw ss tw)
qed

lemma probe_Some_getURL: "probe env ENV_PREFIXES API_URL_ENVVAR = Some u \<Longrightarrow> getURL env = Inr u"
  by (simp add: getURL_probe)

lemma probe_Some_getKey: "probe env ENV_PREFIXES API_KEY_ENVVAR = Some u \<Longrightarrow> getKey env = Inr u"
  by (simp add: getKey_probe)

lemma probe_None_getURL:
  "\<forall>p\<in>set ENV_PREFIXES. env (p @ API_URL_ENVVAR) = None \<Longrightarrow>
   getURL env = Inl (Error ''bonsai sdk env variables are not set!'')"
  using probe_None_iff [of env ENV_PREFIXES API_URL_ENVVAR] by (simp add: getURL_probe)

lemma probe_None_getKey:
  "\<forall>p\<in>set ENV_PREFIXES. env (p @ API_KEY_ENVVAR) = None \<Longrightarrow>
   getKey env = Inl (Error ''bonsai sdk env variables are not set!'')"
  using probe_None_iff [of env ENV_PREFIXES API_KEY_ENVVAR] by (simp add: getKey_probe)

lemma normalize_strip:
  "(if endsWith u ''/'' then str_slice u 0 (- 1) else u) = stripTrailingSlash u"
  by (simp add: endsWith_slash str_slice_drop_last stripTrailingSlash_def)

lemma strip_no_slash: "\<not> endsWith u ''//'' \<Longrightarrow> \<not> endsWith (stripTrailingSlash u) ''/''"
proof (cases u rule: rev_cases)
  case Nil
  then show ?thesis by (simp add: stripTrailingSlash_def endsWith_def)
next
  case (snoc ys y)
  assume h: "\<not> endsWith u ''//''"
  show ?thesis
  proof (cases "y = CHR ''/''")
    case True
    have "\<not> endsWith ys ''/''"
    proof
      assume "endsWith ys ''/''"
      then obtain zs where "ys = zs @ ''/''"
        by (cases ys rule: rev_cases) (auto simp: endsWith_def)
      with snoc True have "u = zs @ ''//''" by simp
      then have "endsWith u ''//''" by (simp add: endsWith_def)
      with h show False by simp
    qed
    with snoc True show ?thesis by (simp add: stripTrailingSlash_def)
  next
    case False
    with snoc show ?thesis by (simp add: stripTrailingSlash_def endsWith_slash)
  qed
qed

section \<open>Claims about the configuration\<close>

text \<open>
  Claim C2. For every environment, the API URL and the API key each resolve by probing the
  prefixes \<^verbatim>\<open>REACT_APP_\<close>, \<^verbatim>\<open>NEXT_PUBLIC_\<close>, \<^verbatim>\<open>GATSBY_\<close>, \<^verbatim>\<open>VUE_APP_\<close>,
  \<^verbatim>\<open>VITE_\<close>, \<^verbatim>\<open>PUBLIC_\<close>, \<^verbatim>\<open>NUXT_ENV_\<close> and then the bare name, in that order,
  and the first variable that is set gives the value; when both the \<^verbatim>\<open>REACT_APP_\<close> and
  the \<^verbatim>\<open>VITE_\<close> variant are set, the \<^verbatim>\<open>REACT_APP_\<close> value is returned. The if-chain
  of the source is compared with the lookup over the ordered list of prefixes.
\<close>

theorem getURL_getKey_first_set_wins:
  "getURL env =
     (case probe env [''REACT_APP_'', ''NEXT_PUBLIC_'', ''GATSBY_'', ''VUE_APP_'', ''VITE_'',
                      ''PUBLIC_'', ''NUXT_ENV_'', []] ''BONSAI_API_URL'' of
        Some v \<Rightarrow> Inr v
      | None \<Rightarrow> Inl (Error ''bonsai sdk env variables are not set!''))
   \<and> getKey env =
     (case probe env [''REACT_APP_'', ''NEXT_PUBLIC_'', ''GATSBY_'', ''VUE_APP_'', ''VITE_'',
                      ''PUBLIC_'', ''NUXT_ENV_'', []] ''BONSAI_API_KEY'' of
        Some v \<Rightarrow> Inr v
      | None \<Rightarrow> Inl (Error ''bonsai sdk env variables are not set!''))
   \<and> (env ''REACT_APP_BONSAI_API_URL'' = Some a \<and> env ''VITE_BONSAI_API_URL'' = Some b
        \<longrightarrow> getURL env = Inr a)
   \<and> (env ''REACT_APP_BONSAI_API_KEY'' = Some a \<and> env ''VITE_BONSAI_API_KEY'' = Some b
        \<longrightarrow> getKey env = Inr a)"
proof -
  have u: "getURL env =
     (case probe env [''REACT_APP_'', ''NEXT_PUBLIC_'', ''GATSBY_'', ''VUE_APP_'', ''VITE_'',
                      ''PUBLIC_'', ''NUXT_ENV_'', []] ''BONSAI_API_URL'' of
        Some v \<Rightarrow> Inr v
      | None \<Rightarrow> Inl (Error ''bonsai sdk env variables are not set!''))"
    using getURL_probe [of env] by (simp only: ENV_PREFIXES_def API_URL_ENVVAR_def)
  have k: "getKey env =
     (case probe env [''REACT_APP_'', ''NEXT_PUBLIC_'', ''GATSBY_'', ''VUE_APP_'', ''VITE_'',
                      ''PUBLIC_'', ''NUXT_ENV_'', []] ''BONSAI_API_KEY'' of
        Some v \<Rightarrow> Inr v
      | None \<Rightarrow> Inl (Error ''bonsai sdk env variables are not set!''))"
    using getKey_probe [of env] by (simp only: ENV_PREFIXES_def API_KEY_ENVVAR_def)
  have ua: "env ''REACT_APP_BONSAI_API_URL'' = Some a \<Longrightarrow> getURL env = Inr a"
    by (simp add: getURL_def API_URL_ENVVAR_def)
  have ka: "env ''REACT_APP_BONSAI_API_KEY'' = Some a \<Longrightarrow> getKey env = Inr a"
    by (simp add: getKey_def API_KEY_ENVVAR_def)
  from u k ua ka show ?thesis by blast
qed

theorem getURL_getKey_first_set_wins_witness:
  "getURL [''REACT_APP_BONSAI_API_URL'' \<mapsto> ''https://a'', ''VITE_BONSAI_API_URL'' \<mapsto> ''https://b'']
     = Inr ''https://a''
   \<and> getKey [''REACT_APP_BONSAI_API_KEY'' \<mapsto> ''ka'', ''VITE_BONSAI_API_KEY'' \<mapsto> ''kb''] = Inr ''ka''"
  using getURL_getKey_first_set_wins
          [of "[''REACT_APP_BONSAI_API_URL'' \<mapsto> ''https://a'', ''VITE_BONSAI_API_URL'' \<mapsto> ''https://b'']"
              "''https://a''" "''https://b''"]
        getURL_getKey_first_set_wins
          [of "[''REACT_APP_BONSAI_API_KEY'' \<mapsto> ''ka'', ''VITE_BONSAI_API_KEY'' \<mapsto> ''kb'']"
              "''ka''" "''kb''"]
  by simp

text \<open>
  Claim C3, as amended. When no variant of the URL variable is set, \<^verbatim>\<open>fromEnv\<close> fails
  with the plain \<^verbatim>\<open>Error\<close> that \<^verbatim>\<open>getURL\<close> throws, whose message is
  \<^verbatim>\<open>bonsai sdk env variables are not set!\<close>; the same holds when the URL resolves to
  a non-empty value and no variant of the key variable is set. The \<^verbatim>\<open>SdkErr\<close> with
  \<^verbatim>\<open>Missing API URL\<close> (respectively \<^verbatim>\<open>Missing API Key\<close>) is raised when the first
  variant that is set holds the empty string.
\<close>

theorem fromEnv_missing_configuration:
  "((\<forall>p\<in>set ENV_PREFIXES. env (p @ API_URL_ENVVAR) = None)
      \<longrightarrow> fromEnv env v = Inl (Error ''bonsai sdk env variables are not set!''))
   \<and> (probe env ENV_PREFIXES API_URL_ENVVAR = Some []
      \<longrightarrow> fromEnv env v = Inl (SdkErr ''Missing API URL''))
   \<and> (probe env ENV_PREFIXES API_URL_ENVVAR = Some u \<and> u \<noteq> []
       \<and> (\<forall>p\<in>set ENV_PREFIXES. env (p @ API_KEY_ENVVAR) = None)
      \<longrightarrow> fromEnv env v = Inl (Error ''bonsai sdk env variables are not set!''))
   \<and> (probe env ENV_PREFIXES API_URL_ENVVAR = Some u \<and> u \<noteq> []
       \<and> probe env ENV_PREFIXES API_KEY_ENVVAR = Some []
      \<longrightarrow> fromEnv env v = Inl (SdkErr ''Missing API Key''))"
proof -
  have 1: "(\<forall>p\<in>set ENV_PREFIXES. env (p @ API_URL_ENVVAR) = None)
      \<Longrightarrow> fromEnv env v = Inl (Error ''bonsai sdk env variables are not set!'')"
    using probe_None_getURL [of env] by (simp add: fromEnv_def)
  have 2: "probe env ENV_PREFIXES API_URL_ENVVAR = Some []
      \<Longrightarrow> fromEnv env v = Inl (SdkErr ''Missing API URL'')"
    using probe_Some_getURL [of env "[]"] by (simp add: fromEnv_def)
  have 3: "probe env ENV_PREFIXES API_URL_ENVVAR = Some u \<Longrightarrow> u \<noteq> []
       \<Longrightarrow> (\<forall>p\<in>set ENV_PREFIXES. env (p @ API_KEY_ENVVAR) = None)
      \<Longrightarrow> fromEnv env v = Inl (Error ''bonsai sdk env variables are not set!'')"
    using probe_Some_getURL [of env u] probe_None_getKey [of env] by (simp add: fromEnv_def)
  have 4: "probe env ENV_PREFIXES API_URL_ENVVAR = Some u \<Longrightarrow> u \<noteq> []
       \<Longrightarrow> probe env ENV_PREFIXES API_KEY_ENVVAR = Some []
      \<Longrightarrow> fromEnv env v = Inl (SdkErr ''Missing API Key'')"
    using probe_Some_getURL [of env u] probe_Some_getKey [of env "[]"] by (simp add: fromEnv_def)
  from 1 2 3 4 show ?thesis by blast
qed

theorem fromEnv_missing_configuration_witness:
  "fromEnv Map.empty ''1.2.0'' = Inl (Error ''bonsai sdk env variables are not set!'')
   \<and> fromEnv [''VITE_BONSAI_API_URL'' \<mapsto> []] ''1.2.0'' = Inl (SdkErr ''Missing API URL'')
   \<and> fromEnv [''VITE_BONSAI_API_URL'' \<mapsto> ''https://api.example''] ''1.2.0''
        = Inl (Error ''bonsai sdk env variables are not set!'')
   \<and> fromEnv [''VITE_BONSAI_API_URL'' \<mapsto> ''https://api.example'', ''BONSAI_API_KEY'' \<mapsto> []]
        ''1.2.0'' = Inl (SdkErr ''Missing API Key'')"
  using fromEnv_missing_configuration [of Map.empty "''1.2.0''" "''x''"]
        fromEnv_missing_configuration [of "[''VITE_BONSAI_API_URL'' \<mapsto> []]" "''1.2.0''" "''x''"]
        fromEnv_missing_configuration
          [of "[''VITE_BONSAI_API_URL'' \<mapsto> ''https://api.example'']" "''1.2.0''"
              "''https://api.example''"]
        fromEnv_missing_configuration
          [of "[''VITE_BONSAI_API_URL'' \<mapsto> ''https://api.example'', ''BONSAI_API_KEY'' \<mapsto> []]"
              "''1.2.0''" "''https://api.example''"]
  by (simp add: ENV_PREFIXES_def API_URL_ENVVAR_def API_KEY_ENVVAR_def)

text \<open>
  The claim as the specification states it fails: with nothing set, and with only the
  URL set, the error is not the \<^verbatim>\<open>SdkErr\<close> with \<^verbatim>\<open>Missing API URL\<close> or
  \<^verbatim>\<open>Missing API Key\<close>.
\<close>

theorem fromEnv_nothing_set_counterexample:
  "probe Map.empty ENV_PREFIXES API_URL_ENVVAR = None
   \<and> fromEnv Map.empty ''1.2.0'' = Inl (Error ''bonsai sdk env variables are not set!'')
   \<and> fromEnv Map.empty ''1.2.0'' \<noteq> Inl (SdkErr ''Missing API URL'')
   \<and> probe [''BONSAI_API_URL'' \<mapsto> ''https://api.example''] ENV_PREFIXES API_URL_ENVVAR
        = Some ''https://api.example''
   \<and> probe [''BONSAI_API_URL'' \<mapsto> ''https://api.example''] ENV_PREFIXES API_KEY_ENVVAR = None
   \<and> fromEnv [''BONSAI_API_URL'' \<mapsto> ''https://api.example''] ''1.2.0''
        = Inl (Error ''bonsai sdk env variables are not set!'')
   \<and> fromEnv [''BONSAI_API_URL'' \<mapsto> ''https://api.example''] ''1.2.0''
        \<noteq> Inl (SdkErr ''Missing API Key'')"
  by (simp add: fromEnv_def getURL_probe getKey_probe ENV_PREFIXES_def API_URL_ENVVAR_def
      API_KEY_ENVVAR_def endsWith_def)

text \<open>
  Claim C4. The timeout of the axios instance: no timeout when \<^verbatim>\<open>BONSAI_TIMEOUT_MS\<close>
  is the string \<^verbatim>\<open>none\<close>; 30000 when it is unset; for any other string the result of
  \<^verbatim>\<open>parseInt\<close> in radix 10, and 30000 when that is \<open>NaN\<close>. On a string of decimal
  digits \<^verbatim>\<open>parseInt\<close> is the integer the digits denote (up to \<open>2 ^ 53\<close>, where doubles
  are exact); \<^verbatim>\<open>5000\<close> gives 5000 and \<^verbatim>\<open>abc\<close> gives 30000.
\<close>

theorem constructReqClient_timeout_resolution:
  "(env TIMEOUT_ENVVAR = Some ''none'' \<longrightarrow> timeout (constructReqClient env k v) = None)
   \<and> (env TIMEOUT_ENVVAR = None \<longrightarrow> timeout (constructReqClient env k v) = Some (Num 30000))
   \<and> (env TIMEOUT_ENVVAR = Some s \<and> s \<noteq> ''none'' \<and> parseInt s 10 \<noteq> NaN
        \<longrightarrow> timeout (constructReqClient env k v) = Some (parseInt s 10))
   \<and> (env TIMEOUT_ENVVAR = Some s \<and> s \<noteq> ''none'' \<and> parseInt s 10 = NaN
        \<longrightarrow> timeout (constructReqClient env k v) = Some (Num 30000))
   \<and> (s \<noteq> [] \<and> list_all isDecimalDigit s \<and> decimalValue s \<le> 2 ^ 53
        \<longrightarrow> parseInt s 10 = Num (decimalValue s))
   \<and> (env TIMEOUT_ENVVAR = Some ''5000'' \<longrightarrow> timeout (constructReqClient env k v) = Some (Num 5000))
   \<and> (env TIMEOUT_ENVVAR = Some ''abc'' \<longrightarrow> timeout (constructReqClient env k v) = Some (Num 30000))"
proof -
  have e: "parseInt [] 10 = NaN" by (simp add: parseInt_eval)
  have a: "parseInt ''5000'' 10 = Num 5000" by (simp add: parseInt_eval)
  have b: "parseInt ''abc'' 10 = NaN" by (simp add: parseInt_eval)
  have 1: "env TIMEOUT_ENVVAR = Some ''none'' \<Longrightarrow> timeout (constructReqClient env k v) = None"
    by (simp add: constructReqClient_def)
  have 2: "env TIMEOUT_ENVVAR = None \<Longrightarrow> timeout (constructReqClient env k v) = Some (Num 30000)"
    by (simp add: constructReqClient_def DEFAULT_TIMEOUT_def)
  have 3: "env TIMEOUT_ENVVAR = Some t \<Longrightarrow> t \<noteq> ''none'' \<Longrightarrow> parseInt t 10 \<noteq> NaN
        \<Longrightarrow> timeout (constructReqClient env k v) = Some (parseInt t 10)" for t
    using e by (auto simp: constructReqClient_def isNaN_def Let_def)
  have 4: "env TIMEOUT_ENVVAR = Some t \<Longrightarrow> t \<noteq> ''none'' \<Longrightarrow> parseInt t 10 = NaN
        \<Longrightarrow> timeout (constructReqClient env k v) = Some (Num 30000)" for t
    by (auto simp: constructReqClient_def isNaN_def Let_def DEFAULT_TIMEOUT_def)
  have 5: "env TIMEOUT_ENVVAR = Some ''5000'' \<Longrightarrow> timeout (constructReqClient env k v) = Some (Num 5000)"
    using 3 [of "''5000''"] a by simp
  have 6: "env TIMEOUT_ENVVAR = Some ''abc'' \<Longrightarrow> timeout (constructReqClient env k v) = Some (Num 30000)"
    using 4 [of "''abc''"] b by simp
  show ?thesis
    using 1 2 3 [of s] 4 [of s] 5 6 parseInt_decimal [of s] by simp
qed

theorem constructReqClient_timeout_witness:
  "timeout (constructReqClient [''BONSAI_TIMEOUT_MS'' \<mapsto> ''none''] ''key'' ''1.2.0'') = None
   \<and> timeout (constructReqClient Map.empty ''key'' ''1.2.0'') = Some (Num 30000)
   \<and> timeout (constructReqClient [''BONSAI_TIMEOUT_MS'' \<mapsto> ''5000''] ''key'' ''1.2.0'') = Some (Num 5000)
   \<and> timeout (constructReqClient [''BONSAI_TIMEOUT_MS'' \<mapsto> ''abc''] ''key'' ''1.2.0'') = Some (Num 30000)
   \<and> timeout (constructReqClient [''BONSAI_TIMEOUT_MS'' \<mapsto> ''12px''] ''key'' ''1.2.0'') = Some (Num 12)
   \<and> parseInt ''5000'' 10 = Num (decimalValue ''5000'')"
proof -
  have a: "parseInt ''12px'' 10 = Num 12" by (simp add: parseInt_eval)
  have b: "parseInt ''abc'' 10 = NaN" by (simp add: parseInt_eval)
  show ?thesis
    using constructReqClient_timeout_resolution
            [of "[''BONSAI_TIMEOUT_MS'' \<mapsto> ''none'']" "''key''" "''1.2.0''" "''5000''"]
          constructReqClient_timeout_resolution
            [of "Map.empty" "''key''" "''1.2.0''" "''5000''"]
          constructReqClient_timeout_resolution
            [of "[''BONSAI_TIMEOUT_MS'' \<mapsto> ''5000'']" "''key''" "''1.2.0''" "''5000''"]
          constructReqClient_timeout_resolution
            [of "[''BONSAI_TIMEOUT_MS'' \<mapsto> ''abc'']" "''key''" "''1.2.0''" "''abc''"]
          constructReqClient_timeout_resolution
            [of "[''BONSAI_TIMEOUT_MS'' \<mapsto> ''12px'']" "''key''" "''1.2.0''" "''12px''"]
          a b
    by (simp add: isDecimalDigit_def TIMEOUT_ENVVAR_def)
qed

text \<open>
  Claim C9. Both constructors strip exactly one trailing slash from the URL if there is
  one: \<^verbatim>\<open>https://api.example/\<close> and \<^verbatim>\<open>https://api.example\<close> give the same base
  URL, and the base URL does not end in a slash when the input has at most one trailing
  slash.
\<close>

theorem client_url_trailing_slash:
  "url (fromParts env u k v) = stripTrailingSlash u
   \<and> (getURL env = Inr a \<and> a \<noteq> [] \<and> getKey env = Inr key \<and> key \<noteq> []
        \<longrightarrow> fromEnv env v = Inr \<lparr>url = stripTrailingSlash a, client = constructReqClient env key v\<rparr>)
   \<and> (fromEnv env v = Inr c \<longrightarrow> (\<exists>a. getURL env = Inr a \<and> url c = stripTrailingSlash a))
   \<and> (\<not> endsWith u ''//'' \<longrightarrow> \<not> endsWith (url (fromParts env u k v)) ''/'')
   \<and> url (fromParts env ''https://api.example/'' k v) = ''https://api.example''
   \<and> url (fromParts env ''https://api.example'' k v) = ''https://api.example''"
proof -
  have 1: "url (fromParts env w k v) = stripTrailingSlash w" for w
    by (simp add: fromParts_def normalize_strip Let_def)
  have 2: "getURL env = Inr a \<Longrightarrow> a \<noteq> [] \<Longrightarrow> getKey env = Inr key \<Longrightarrow> key \<noteq> []
        \<Longrightarrow> fromEnv env v = Inr \<lparr>url = stripTrailingSlash a, client = constructReqClient env key v\<rparr>"
    by (simp add: fromEnv_def normalize_strip Let_def)
  have 3: "fromEnv env v = Inr c \<Longrightarrow> \<exists>a. getURL env = Inr a \<and> url c = stripTrailingSlash a"
    by (auto simp: fromEnv_def normalize_strip Let_def split: sum.splits if_splits)
  have 4: "\<not> endsWith u ''//'' \<Longrightarrow> \<not> endsWith (url (fromParts env u k v)) ''/''"
    using strip_no_slash [of u] by (simp add: 1)
  have 5: "stripTrailingSlash ''https://api.example/'' = ''https://api.example''"
    by (simp add: stripTrailingSlash_def)
  have 6: "stripTrailingSlash ''https://api.example'' = ''https://api.example''"
    by (simp add: stripTrailingSlash_def)
  from 1 [of u] 2 3 4 5 6 show ?thesis by (simp add: 1)
qed

theorem client_url_trailing_slash_witness:
  "url (fromParts Map.empty ''https://api.example/'' ''key'' ''1.2.0'') = ''https://api.example''
   \<and> \<not> endsWith (url (fromParts Map.empty ''https://api.example/'' ''key'' ''1.2.0'')) ''/''
   \<and> fromEnv [''BONSAI_API_URL'' \<mapsto> ''https://api.example/'', ''BONSAI_API_KEY'' \<mapsto> ''key''] ''1.2.0''
       = Inr \<lparr>url = ''https://api.example'',
              client = \<lparr>timeout = Some (Num 30000),
                        headers = [(''x-api-key'', ''key''), (''x-risc0-version'', ''1.2.0'')]\<rparr>\<rparr>"
proof -
  let ?env = "[''BONSAI_API_URL'' \<mapsto> ''https://api.example/'', ''BONSAI_API_KEY'' \<mapsto> ''key'']"
  have u: "getURL ?env = Inr ''https://api.example/''"
    by (simp add: getURL_def API_URL_ENVVAR_def)
  have k: "getKey ?env = Inr ''key''"
    by (simp add: getKey_def API_KEY_ENVVAR_def)
  have c: "constructReqClient ?env ''key'' ''1.2.0''
             = \<lparr>timeout = Some (Num 30000),
                headers = [(''x-api-key'', ''key''), (''x-risc0-version'', ''1.2.0'')]\<rparr>"
    by (simp add: constructReqClient_def TIMEOUT_ENVVAR_def DEFAULT_TIMEOUT_def API_KEY_HEADER_def
        VERSION_HEADER_def)
  have s: "stripTrailingSlash ''https://api.example/'' = ''https://api.example''"
    by (simp add: stripTrailingSlash_def)
  have e: "\<not> endsWith ''https://api.example/'' ''//''"
    by (simp add: endsWith_def)
  show ?thesis
    using client_url_trailing_slash
            [of Map.empty "''https://api.example/''" "''key''" "''1.2.0''" "''x''" "''y''"
                "fromParts Map.empty ''https://api.example/'' ''key'' ''1.2.0''"]
          client_url_trailing_slash
            [of ?env "''https://api.example/''" "''key''" "''1.2.0''" "''https://api.example/''" "''key''"
                "fromParts Map.empty ''https://api.example/'' ''key'' ''1.2.0''"]
          u k c s e
    by (simp add: endsWith_def)
qed

section \<open>Lemmas about the operations\<close>

lemma hex_not_terminator: "isHexDigit c \<Longrightarrow> \<not> isLineTerminator c"
  by (auto simp: isHexDigit_def isLineTerminator_def Let_def)

lemma hex_not_space: "isHexDigit c \<Longrightarrow> \<not> isWhiteSpace c"
  by (auto simp: isHexDigit_def isWhiteSpace_def Let_def)

lemma hex_not_sign: "isHexDigit c \<Longrightarrow> c \<noteq> CHR ''-'' \<and> c \<noteq> CHR ''+''"
  by (auto simp: isHexDigit_def Let_def)

lemma hex_not_x: "isHexDigit c \<Longrightarrow> c \<noteq> CHR ''x'' \<and> c \<noteq> CHR ''X''"
  by (auto simp: isHexDigit_def Let_def)

lemma hex_digitVal: "isHexDigit c \<Longrightarrow> digitVal c = Some (hexVal c) \<and> 0 \<le> hexVal c \<and> hexVal c < 16"
  by (auto simp: isHexDigit_def digitVal_def hexVal_def Let_def)

lemma hex_radix_digit: "isHexDigit c \<Longrightarrow> isRadixDigit 16 c"
  using hex_digitVal [of c] by (simp add: isRadixDigit_def)

lemma matchPairs_hex: "list_all isHexDigit s \<Longrightarrow> matchPairs s = hexPairs s"
  by (induction s rule: hexPairs.induct) (simp_all add: hex_not_terminator)

lemma hexPairs_nonempty: "s \<noteq> [] \<Longrightarrow> hexPairs s \<noteq> []"
  by (cases s rule: hexPairs.cases) simp_all

lemma parseInt_hex1:
  assumes "isHexDigit c"
  shows "parseInt [c] 16 = Num (hexVal c)"
  using assms hex_not_space [of c] hex_not_sign [of c] hex_radix_digit [of c] hex_digitVal [of c]
  by (simp add: parseInt_def stripSign_def stripHexPrefix_def digitsValue_def)

lemma parseInt_hex2:
  assumes "isHexDigit c" "isHexDigit d"
  shows "parseInt [c, d] 16 = Num (hexVal c * 16 + hexVal d)"
proof -
  have v: "hexVal c * 16 + hexVal d \<le> 2 ^ 53"
    using hex_digitVal [of c] hex_digitVal [of d] assms by simp
  show ?thesis
    using assms hex_not_space [of c] hex_not_sign [of c] hex_radix_digit [of c] hex_digitVal [of c]
      hex_radix_digit [of d] hex_digitVal [of d] hex_not_x [of d] v
    by (simp add: parseInt_def stripSign_def stripHexPrefix_def digitsValue_def)
qed

lemma map_parse_hexPairs:
  "list_all isHexDigit s \<Longrightarrow>
   map (\<lambda>b. toUint8 (parseInt b 16)) (hexPairs s) = map hexByte (hexPairs s)"
  by (induction s rule: hexPairs.induct)
     (simp_all add: parseInt_hex1 parseInt_hex2 toUint8_def hexByte_def)

lemma fromHexString_hex:
  "s \<noteq> [] \<Longrightarrow> list_all isHexDigit s \<Longrightarrow> fromHexString s = Inr (decodeHex s)"
  by (simp add: fromHexString_def str_match_def matchPairs_hex hexPairs_nonempty
      map_parse_hexPairs decodeHex_def)

lemma matchPairs_Nil_iff: "matchPairs s = [] \<longleftrightarrow> list_all isLineTerminator s"
  by (induction s rule: matchPairs.induct) simp_all

lemma fromHexString_unmatched: "matchPairs s = [] \<Longrightarrow> fromHexString s = Inl TypeError"
  by (simp add: fromHexString_def str_match_def)

text \<open>
  The README passes the output of an ABI encoder, a hex string behind \<^verbatim>\<open>0x\<close>. The
  pattern takes the prefix as the first pair, \<^verbatim>\<open>parseInt\<close> makes it \<open>NaN\<close> and
  the array stores 0: the byte that \<^verbatim>\<open>shift\<close> drops is then the prefix's, and what
  is uploaded is the decoded string.
\<close>

lemma parseInt_0x: "parseInt ''0x'' 16 = NaN"
  by (simp add: parseInt_def stripSign_def isWhiteSpace_def stripHexPrefix_def)

lemma fromHexString_0x_prefixed:
  assumes "list_all isHexDigit h"
  shows "fromHexString (''0x'' @ h) = Inr (0 # decodeHex h)"
proof -
  have "matchPairs (''0x'' @ h) = ''0x'' # hexPairs h"
    using assms by (simp add: matchPairs_hex isLineTerminator_def)
  moreover have "toUint8 (parseInt ''0x'' 16) = 0"
    by (simp add: parseInt_0x toUint8_def)
  ultimately show ?thesis
    using assms
    by (simp add: fromHexString_def str_match_def map_parse_hexPairs decodeHex_def)
qed

lemma fromHexString_00ff00: "fromHexString ''00ff00'' = Inr [0, 255, 0]"
  by (simp add: fromHexString_def str_match_def isLineTerminator_def toUint8_def parseInt_def
      stripSign_def isWhiteSpace_def isRadixDigit_def digitVal_def digitsValue_def stripHexPrefix_def)

lemma decodeHex_00ff00: "decodeHex ''00ff00'' = [0, 255, 0]"
  by (simp add: decodeHex_def hexByte_def hexVal_def)

lemmas io_defs = bind_io_def return_io_def throw_io_def lift_io_def

lemma axios_request_resolved:
  "net tr \<lparr>rq_verb = v, rq_url = u, rq_headers = headers inst, rq_body = b\<rparr> = Reply res \<Longrightarrow>
   status res = 0 \<or> ok (status res) \<Longrightarrow>
   axios_request inst ok net v u b tr
     = (Inr res, tr @ [\<lparr>rq_verb = v, rq_url = u, rq_headers = headers inst, rq_body = b\<rparr>])"
  by (simp add: axios_request_def Let_def)

lemma axios_request_rejected:
  "net tr \<lparr>rq_verb = v, rq_url = u, rq_headers = headers inst, rq_body = b\<rparr> = Reply res \<Longrightarrow>
   status res \<noteq> 0 \<Longrightarrow> \<not> ok (status res) \<Longrightarrow>
   axios_request inst ok net v u b tr
     = (Inl (''Request failed with status code '' @ showNat (status res), Some res),
        tr @ [\<lparr>rq_verb = v, rq_url = u, rq_headers = headers inst, rq_body = b\<rparr>])"
  by (simp add: axios_request_def Let_def)

lemma axios_request_no_reply:
  "net tr \<lparr>rq_verb = v, rq_url = u, rq_headers = headers inst, rq_body = b\<rparr> = NoReply msg \<Longrightarrow>
   axios_request inst ok net v u b tr
     = (Inl (msg, None), tr @ [\<lparr>rq_verb = v, rq_url = u, rq_headers = headers inst, rq_body = b\<rparr>])"
  by (simp add: axios_request_def Let_def)

lemma axios_request_trace:
  "snd (axios_request inst ok net v u b tr)
     = tr @ [\<lparr>rq_verb = v, rq_url = u, rq_headers = headers inst, rq_body = b\<rparr>]"
  by (simp add: axios_request_def Let_def split: reply.splits)

lemma axios_call_resolved:
  "net tr \<lparr>rq_verb = v, rq_url = u, rq_headers = headers inst, rq_body = b\<rparr> = Reply res \<Longrightarrow>
   status res = 0 \<or> ok (status res) \<Longrightarrow>
   axios_call inst ok net v u b tr
     = (Inr res, tr @ [\<lparr>rq_verb = v, rq_url = u, rq_headers = headers inst, rq_body = b\<rparr>])"
  by (simp add: axios_call_def axios_request_resolved)

lemma axios_call_rejected:
  "net tr \<lparr>rq_verb = v, rq_url = u, rq_headers = headers inst, rq_body = b\<rparr> = Reply res \<Longrightarrow>
   status res \<noteq> 0 \<Longrightarrow> \<not> ok (status res) \<Longrightarrow>
   axios_call inst ok net v u b tr
     = (Inl (AxiosError (''Request failed with status code '' @ showNat (status res)) (Some res)),
        tr @ [\<lparr>rq_verb = v, rq_url = u, rq_headers = headers inst, rq_body = b\<rparr>])"
  by (simp add: axios_call_def axios_request_rejected)

lemma axios_call_no_reply:
  "net tr \<lparr>rq_verb = v, rq_url = u, rq_headers = headers inst, rq_body = b\<rparr> = NoReply msg \<Longrightarrow>
   axios_call inst ok net v u b tr
     = (Inl (AxiosError msg None),
        tr @ [\<lparr>rq_verb = v, rq_url = u, rq_headers = headers inst, rq_body = b\<rparr>])"
  by (simp add: axios_call_def axios_request_no_reply)

lemma axios_call_trace:
  "snd (axios_call inst ok net v u b tr)
     = tr @ [\<lparr>rq_verb = v, rq_url = u, rq_headers = headers inst, rq_body = b\<rparr>]"
  using axios_request_trace [of inst ok net v u b tr]
  by (auto simp: axios_call_def split: prod.splits sum.splits)

lemma axios_call_cases:
  "(\<exists>e. axios_call inst ok net v u b tr
          = (Inl e, tr @ [\<lparr>rq_verb = v, rq_url = u, rq_headers = headers inst, rq_body = b\<rparr>]))
   \<or> (\<exists>res. axios_call inst ok net v u b tr
          = (Inr res, tr @ [\<lparr>rq_verb = v, rq_url = u, rq_headers = headers inst, rq_body = b\<rparr>]))"
  using axios_call_trace [of inst ok net v u b tr]
  by (cases "axios_call inst ok net v u b tr") (auto, metis sum.exhaust)

lemma getUploadUrl_ok:
  "net tr \<lparr>rq_verb = GET, rq_url = JStr (url c @ ''/'' @ route @ ''/upload''),
           rq_headers = headers (client c), rq_body = NoBody\<rparr> = Reply res \<Longrightarrow>
   status res = 200 \<Longrightarrow>
   getUploadUrl c net route tr
     = (Inr (data res),
        tr @ [\<lparr>rq_verb = GET, rq_url = JStr (url c @ ''/'' @ route @ ''/upload''),
                rq_headers = headers (client c), rq_body = NoBody\<rparr>])"
  by (simp add: getUploadUrl_def io_defs axios_call_resolved defaultValidateStatus_def)

lemma getUploadUrl_trace:
  "snd (getUploadUrl c net route tr)
     = tr @ [\<lparr>rq_verb = GET, rq_url = JStr (url c @ ''/'' @ route @ ''/upload''),
               rq_headers = headers (client c), rq_body = NoBody\<rparr>]"
  using axios_call_trace
          [of "client c" defaultValidateStatus net GET "JStr (url c @ ''/'' @ route @ ''/upload'')"
              NoBody tr]
  by (auto simp: getUploadUrl_def io_defs split: prod.splits sum.splits)

lemma putData_ok:
  "net tr \<lparr>rq_verb = PUT, rq_url = u, rq_headers = headers (client c), rq_body = b\<rparr> = Reply res \<Longrightarrow>
   200 \<le> status res \<Longrightarrow> status res < 300 \<Longrightarrow>
   putData c net u b tr
     = (Inr (), tr @ [\<lparr>rq_verb = PUT, rq_url = u, rq_headers = headers (client c), rq_body = b\<rparr>])"
  by (simp add: putData_def axios_request_resolved defaultValidateStatus_def)

lemma putData_trace:
  "snd (putData c net u b tr)
     = tr @ [\<lparr>rq_verb = PUT, rq_url = u, rq_headers = headers (client c), rq_body = b\<rparr>]"
  using axios_request_trace [of "client c" defaultValidateStatus net PUT u b tr]
  by (auto simp: putData_def Let_def split: prod.splits sum.splits option.splits)

lemma getProp_obj: "getProp (JObj kvs) name = Inr (case map_of kvs name of Some x \<Rightarrow> x | None \<Rightarrow> JUndefined)"
  by (simp add: getProp_def)

lemma showNat_500: "showNat 500 = ''500''"
  by code_simp

lemma getProp_error: "getProp v name = Inl e \<Longrightarrow> e = TypeError"
  by (cases v) (simp_all add: getProp_def)

lemma callMethod_throws: "\<exists>e. callMethod v name = Inl e"
  by (simp add: callMethod_def split: sum.splits)

lemma showNat_403: "showNat 403 = ''403''"
  by code_simp

text \<open>
  The body text that the code computes with \<^verbatim>\<open>JSON.stringify\<close> is the body text of
  the specification's wording, for every body.
\<close>

lemma hexDigit_all: "\<forall>n\<in>set [0..<16]. hexDigit n = ''0123456789abcdef'' ! n"
  by code_simp

lemma hexDigit_table: "n < 16 \<Longrightarrow> hexDigit n = ''0123456789abcdef'' ! n"
  using hexDigit_all by simp

lemma hexDigit_high: "n < 32 \<Longrightarrow> hexDigit (n div 16) = (if n < 16 then CHR ''0'' else CHR ''1'')"
proof (cases "n < 16")
  case True
  have "hexDigit 0 = CHR ''0''" by code_simp
  with True show ?thesis by simp
next
  case False
  assume "n < 32"
  with False have "n div 16 = 1" by (intro div_nat_eqI) simp_all
  moreover have "hexDigit 1 = CHR ''1''" by code_simp
  ultimately show ?thesis using False by simp
qed

lemma escapeChar_jsonEscape: "escapeChar c = jsonEscape c"
proof -
  have low: "(of_char c :: nat) < 32 \<Longrightarrow>
       hexDigit (of_char c div 16) = (if (of_char c :: nat) < 16 then CHR ''0'' else CHR ''1'')
       \<and> hexDigit (of_char c mod 16) = ''0123456789abcdef'' ! (of_char c mod 16)"
    using hexDigit_high [of "of_char c"] hexDigit_table [of "of_char c mod 16"] by simp
  show ?thesis
    using low by (simp add: escapeChar_def jsonEscape_def Let_def)
qed

lemma joinWith_commaSep: "joinWith '','' xs = commaSep xs"
  by (induction "'',''" xs rule: joinWith.induct) (simp_all add: commaSep_def)

lemma quoteJSON_jsonQuoted: "quoteJSON s = jsonQuoted s"
proof -
  have "escapeChar = jsonEscape" by (rule ext) (rule escapeChar_jsonEscape)
  then show ?thesis by (simp add: quoteJSON_def jsonQuoted_def)
qed

lemma stringify_jsonText:
  "stringify v = jsonText v"
  "stringifyElems xs = map jsonText xs"
  "stringifyProps kvs = map (\<lambda>(k, v). jsonQuoted k @ '':'' @ jsonText v)
                            (filter (\<lambda>(k, v). v \<noteq> JUndefined) kvs)"
  by (induction v and xs and kvs rule: stringify_stringifyElems_stringifyProps.induct)
     (simp_all add: joinWith_commaSep quoteJSON_jsonQuoted)

lemma bodyText_stringifiedBody: "bodyText d = stringifiedBody d"
  by (cases d) (simp_all add: bodyText_def stringifiedBody_def JSON_stringify_def stringify_jsonText)

lemma stringifiedBody_array: "stringifiedBody (JArr [JNum ''1'', JNull, JBool True]) = ''[1,null,true]''"
  by (simp add: stringifiedBody_def commaSep_def)

lemma stringifiedBody_object:
  "stringifiedBody (JObj [(''error'', JStr ''no quota''), (''hint'', JUndefined), (''code'', JNum ''42'')])
     = ''{'' @ [CHR 0x22] @ ''error'' @ [CHR 0x22] @ '':'' @ [CHR 0x22] @ ''no quota'' @ [CHR 0x22]
        @ '','' @ [CHR 0x22] @ ''code'' @ [CHR 0x22] @ '':42}''"
  by (simp add: stringifiedBody_def commaSep_def jsonQuoted_def jsonEscape_def)

section \<open>What holds of the status, image and session operations\<close>

text \<open>
  Three operations call axios without \<^verbatim>\<open>validateStatus\<close> and then test the status
  themselves, and one of them reads \<^verbatim>\<open>res.data.json()\<close>. What they do for every
  server is recorded here; the claims below are settled against it.

  \<^verbatim>\<open>getImageUploadUrl\<close>: a 204 gives \<open>Exists\<close>, and \<^verbatim>\<open>uploadImg\<close> then returns
  \<^verbatim>\<open>true\<close> after that one request. Whatever the server answers, the result is not
  \<open>New\<close>: the 200 branch calls \<^verbatim>\<open>json\<close> on decoded data. So \<^verbatim>\<open>uploadImg\<close> never returns
  \<^verbatim>\<open>false\<close> and never sends a PUT.
\<close>

theorem getImageUploadUrl_exists:
  "(net tr \<lparr>rq_verb = GET, rq_url = JStr (url c @ ''/images/upload/'' @ imageId),
             rq_headers = headers (client c), rq_body = NoBody\<rparr> = Reply res
     \<and> status res = 204
     \<longrightarrow> getImageUploadUrl c net imageId tr
           = (Inr Exists,
              tr @ [\<lparr>rq_verb = GET, rq_url = JStr (url c @ ''/images/upload/'' @ imageId),
                      rq_headers = headers (client c), rq_body = NoBody\<rparr>])
         \<and> uploadImg c net imageId buf tr
           = (Inr True,
              tr @ [\<lparr>rq_verb = GET, rq_url = JStr (url c @ ''/images/upload/'' @ imageId),
                      rq_headers = headers (client c), rq_body = NoBody\<rparr>]))
   \<and> fst (getImageUploadUrl c net imageId tr) \<noteq> Inr (New d)
   \<and> fst (uploadImg c net imageId buf tr) \<noteq> Inr False
   \<and> snd (uploadImg c net imageId buf tr)
       = tr @ [\<lparr>rq_verb = GET, rq_url = JStr (url c @ ''/images/upload/'' @ imageId),
                 rq_headers = headers (client c), rq_body = NoBody\<rparr>]"
proof -
  let ?g = "\<lparr>rq_verb = GET, rq_url = JStr (url c @ ''/images/upload/'' @ imageId),
             rq_headers = headers (client c), rq_body = NoBody\<rparr>"
  have never: "\<exists>e. getImageUploadUrl c net imageId tr = (Inl e, tr @ [?g])
               \<or> getImageUploadUrl c net imageId tr = (Inr Exists, tr @ [?g])"
  proof -
    consider (err) e where
        "axios_call (client c) defaultValidateStatus net GET
           (JStr (url c @ ''/images/upload/'' @ imageId)) NoBody tr = (Inl e, tr @ [?g])"
      | (res) r where
        "axios_call (client c) defaultValidateStatus net GET
           (JStr (url c @ ''/images/upload/'' @ imageId)) NoBody tr = (Inr r, tr @ [?g])"
      using axios_call_cases
              [of "client c" defaultValidateStatus net GET
                  "JStr (url c @ ''/images/upload/'' @ imageId)" NoBody tr]
      by blast
    then show ?thesis
    proof cases
      case err
      then show ?thesis by (simp add: getImageUploadUrl_def io_defs)
    next
      case res
      then show ?thesis
        by (auto simp: getImageUploadUrl_def io_defs callMethod_def split: sum.splits)
    qed
  qed
  have ex: "getImageUploadUrl c net imageId tr = (Inr Exists, tr @ [?g])"
    if "net tr ?g = Reply res" "status res = 204"
    using that
    by (simp add: getImageUploadUrl_def io_defs axios_call_resolved defaultValidateStatus_def)
  have up: "uploadImg c net imageId buf tr =
     (case getImageUploadUrl c net imageId tr of
        (Inl e, tr') \<Rightarrow> (Inl e, tr')
      | (Inr Exists, tr') \<Rightarrow> (Inr True, tr')
      | (Inr (New w), tr') \<Rightarrow>
          (case getProp w ''url'' of
             Inl e \<Rightarrow> (Inl e, tr')
           | Inr u \<Rightarrow> (case putData c net u (BytesBody buf) tr' of
                         (Inl e, tr'') \<Rightarrow> (Inl e, tr'')
                       | (Inr _, tr'') \<Rightarrow> (Inr False, tr''))))"
    by (simp add: uploadImg_def io_defs split: prod.splits sum.splits ImageExistsOpt.splits)
  from never ex up show ?thesis by (auto split: prod.splits sum.splits)
qed

theorem getImageUploadUrl_exists_witness:
  "uploadImg \<lparr>url = ''https://api.example'', client = \<lparr>timeout = None, headers = []\<rparr>\<rparr>
      (\<lambda>tr rq. Reply \<lparr>status = 204, raw = [], data = JStr []\<rparr>) ''img-1'' [1, 2, 3] []
     = (Inr True,
        [\<lparr>rq_verb = GET, rq_url = JStr ''https://api.example/images/upload/img-1'', rq_headers = [],
          rq_body = NoBody\<rparr>])"
  using getImageUploadUrl_exists
          [of "(\<lambda>tr rq. Reply \<lparr>status = 204, raw = [], data = JStr []\<rparr>)" "[]"
              "\<lparr>url = ''https://api.example'', client = \<lparr>timeout = None, headers = []\<rparr>\<rparr>"
              "''img-1''" "\<lparr>status = 204, raw = [], data = JStr []\<rparr>" "[1, 2, 3]"]
  by simp

text \<open>
  \<^verbatim>\<open>SessionId.status\<close>: a 200 returns the decoded data as it came, whatever it holds;
  another status from 200 to 299 raises \<^verbatim>\<open>InternalServerError\<close> with the body; a
  status outside 200 to 299 never reaches the test, because axios has rejected already.
\<close>

theorem status_snapshot_as_received:
  assumes "toStr (uuid sid) = Inr i"
  shows
  "(net tr \<lparr>rq_verb = GET, rq_url = JStr (url c @ ''/sessions/status/'' @ i),
             rq_headers = headers (client c), rq_body = NoBody\<rparr> = Reply res
     \<and> status res = 200
     \<longrightarrow> SessionId_status sid c net tr
           = (Inr (data res),
              tr @ [\<lparr>rq_verb = GET, rq_url = JStr (url c @ ''/sessions/status/'' @ i),
                      rq_headers = headers (client c), rq_body = NoBody\<rparr>]))
   \<and> (net tr \<lparr>rq_verb = GET, rq_url = JStr (url c @ ''/sessions/status/'' @ i),
             rq_headers = headers (client c), rq_body = NoBody\<rparr> = Reply res
     \<and> 200 < status res \<and> status res < 300 \<and> toStr (data res) = Inr body
     \<longrightarrow> SessionId_status sid c net tr
           = (Inl (InternalServerError (''Internal server error: '' @ body)),
              tr @ [\<lparr>rq_verb = GET, rq_url = JStr (url c @ ''/sessions/status/'' @ i),
                      rq_headers = headers (client c), rq_body = NoBody\<rparr>]))
   \<and> (net tr \<lparr>rq_verb = GET, rq_url = JStr (url c @ ''/sessions/status/'' @ i),
             rq_headers = headers (client c), rq_body = NoBody\<rparr> = Reply res
     \<and> status res \<noteq> 0 \<and> (status res < 200 \<or> 300 \<le> status res)
     \<longrightarrow> SessionId_status sid c net tr
           = (Inl (AxiosError (''Request failed with status code '' @ showNat (status res)) (Some res)),
              tr @ [\<lparr>rq_verb = GET, rq_url = JStr (url c @ ''/sessions/status/'' @ i),
                      rq_headers = headers (client c), rq_body = NoBody\<rparr>]))"
  using assms
  by (auto simp: SessionId_status_def io_defs axios_call_resolved axios_call_rejected
      defaultValidateStatus_def)

theorem status_snapshot_as_received_witness:
  "SessionId_status (SessionId (JStr ''s-1''))
      \<lparr>url = ''https://api.example'', client = \<lparr>timeout = None, headers = []\<rparr>\<rparr>
      (\<lambda>tr rq. Reply \<lparr>status = 200, raw = [],
                         data = JObj [(''status'', JStr ''SUCCEEDED'')]\<rparr>) []
     = (Inr (JObj [(''status'', JStr ''SUCCEEDED'')]),
        [\<lparr>rq_verb = GET, rq_url = JStr ''https://api.example/sessions/status/s-1'', rq_headers = [],
          rq_body = NoBody\<rparr>])
   \<and> SessionId_status (SessionId (JStr ''s-1''))
      \<lparr>url = ''https://api.example'', client = \<lparr>timeout = None, headers = []\<rparr>\<rparr>
      (\<lambda>tr rq. Reply \<lparr>status = 201, raw = [], data = JStr ''created''\<rparr>) []
     = (Inl (InternalServerError ''Internal server error: created''),
        [\<lparr>rq_verb = GET, rq_url = JStr ''https://api.example/sessions/status/s-1'', rq_headers = [],
          rq_body = NoBody\<rparr>])"
  using status_snapshot_as_received
          [of "SessionId (JStr ''s-1'')" "''s-1''"
              "(\<lambda>tr rq. Reply \<lparr>status = 200, raw = [],
                         data = JObj [(''status'', JStr ''SUCCEEDED'')]\<rparr>)" "[]"
              "\<lparr>url = ''https://api.example'', client = \<lparr>timeout = None, headers = []\<rparr>\<rparr>"
              "\<lparr>status = 200, raw = [], data = JObj [(''status'', JStr ''SUCCEEDED'')]\<rparr>"
              "''x''"]
        status_snapshot_as_received
          [of "SessionId (JStr ''s-1'')" "''s-1''"
              "(\<lambda>tr rq. Reply \<lparr>status = 201, raw = [], data = JStr ''created''\<rparr>)" "[]"
              "\<lparr>url = ''https://api.example'', client = \<lparr>timeout = None, headers = []\<rparr>\<rparr>"
              "\<lparr>status = 201, raw = [], data = JStr ''created''\<rparr>"
              "''created''"]
  by simp

text \<open>
  \<^verbatim>\<open>createSession\<close> is \<^verbatim>\<open>createSessionWithLimit\<close> with no cycle limit, for every
  server; on a status from 200 to 299 the handle carries the \<^verbatim>\<open>uuid\<close> of the response.
\<close>

theorem createSession_is_createSessionWithLimit:
  "createSession c net imgId inputId assumptions executeOnly tr
     = createSessionWithLimit c net imgId inputId assumptions executeOnly None tr
   \<and> (net tr \<lparr>rq_verb = POST, rq_url = JStr (url c @ ''/sessions/create''),
               rq_headers = headers (client c),
               rq_body = JsonBody (JObj [(''img'', JStr imgId), (''input'', JStr inputId),
                                         (''assumptions'', JArr (map JStr assumptions)),
                                         (''execute_only'', JBool executeOnly),
                                         (''exec_cycle_limit'', JUndefined)])\<rparr> = Reply res
       \<and> 200 \<le> status res \<and> status res < 300
       \<and> data res = JObj kvs \<and> map_of kvs ''uuid'' = Some i
       \<longrightarrow> createSession c net imgId inputId assumptions executeOnly tr
             = (Inr (SessionId i),
                tr @ [\<lparr>rq_verb = POST, rq_url = JStr (url c @ ''/sessions/create''),
                        rq_headers = headers (client c),
                        rq_body = JsonBody (JObj [(''img'', JStr imgId), (''input'', JStr inputId),
                                         (''assumptions'', JArr (map JStr assumptions)),
                                         (''execute_only'', JBool executeOnly),
                                         (''exec_cycle_limit'', JUndefined)])\<rparr>]))"
proof -
  have eq: "createSession c net imgId inputId assumptions executeOnly tr
     = createSessionWithLimit c net imgId inputId assumptions executeOnly None tr"
    by (simp add: createSession_def io_defs split: prod.splits sum.splits)
  have ok: "createSessionWithLimit c net imgId inputId assumptions executeOnly None tr
             = (Inr (SessionId i),
                tr @ [\<lparr>rq_verb = POST, rq_url = JStr (url c @ ''/sessions/create''),
                        rq_headers = headers (client c),
                        rq_body = JsonBody (JObj [(''img'', JStr imgId), (''input'', JStr inputId),
                                         (''assumptions'', JArr (map JStr assumptions)),
                                         (''execute_only'', JBool executeOnly),
                                         (''exec_cycle_limit'', JUndefined)])\<rparr>])"
    if "net tr \<lparr>rq_verb = POST, rq_url = JStr (url c @ ''/sessions/create''),
               rq_headers = headers (client c),
               rq_body = JsonBody (JObj [(''img'', JStr imgId), (''input'', JStr inputId),
                                         (''assumptions'', JArr (map JStr assumptions)),
                                         (''execute_only'', JBool executeOnly),
                                         (''exec_cycle_limit'', JUndefined)])\<rparr> = Reply res"
       "200 \<le> status res" "status res < 300" "data res = JObj kvs" "map_of kvs ''uuid'' = Some i"
    using that
    by (simp add: createSessionWithLimit_def io_defs axios_call_resolved defaultValidateStatus_def
        getProp_obj Let_def)
  from eq ok show ?thesis by simp
qed

theorem createSession_is_createSessionWithLimit_witness:
  "createSession \<lparr>url = ''https://api.example'', client = \<lparr>timeout = None, headers = []\<rparr>\<rparr>
      (\<lambda>tr rq. Reply \<lparr>status = 200, raw = [], data = JObj [(''uuid'', JStr ''s-1'')]\<rparr>)
      ''img-1'' ''in-1'' [] False []
     = (Inr (SessionId (JStr ''s-1'')),
        [\<lparr>rq_verb = POST, rq_url = JStr ''https://api.example/sessions/create'', rq_headers = [],
          rq_body = JsonBody (JObj [(''img'', JStr ''img-1''), (''input'', JStr ''in-1''),
                                    (''assumptions'', JArr []), (''execute_only'', JBool False),
                                    (''exec_cycle_limit'', JUndefined)])\<rparr>])"
  using conjunct2 [OF createSession_is_createSessionWithLimit
          [of "\<lparr>url = ''https://api.example'', client = \<lparr>timeout = None, headers = []\<rparr>\<rparr>"
              "(\<lambda>tr rq. Reply \<lparr>status = 200, raw = [], data = JObj [(''uuid'', JStr ''s-1'')]\<rparr>)"
              "''img-1''" "''in-1''" "[]" False "[]"
              "\<lparr>status = 200, raw = [], data = JObj [(''uuid'', JStr ''s-1'')]\<rparr>"
              "[(''uuid'', JStr ''s-1'')]" "JStr ''s-1''"]]
  by simp

section \<open>Claims about the operations\<close>

text \<open>
  Claim C1, as amended. For every non-empty string of hex digits, \<^verbatim>\<open>uploadInput\<close>
  decodes it at two characters per byte (a last character left alone is a byte of its
  own) and drops the first byte. The requests it makes are the GET to the
  \<^verbatim>\<open>inputs\<close> upload route and then at most one PUT, whose body is exactly the
  remaining bytes. When the route answers 200 with \<^verbatim>\<open>url\<close> and \<^verbatim>\<open>uuid\<close> and
  the PUT to that \<^verbatim>\<open>url\<close> is answered with a status from 200 to 299, the result is
  that \<^verbatim>\<open>uuid\<close>. The string \<^verbatim>\<open>00ff00\<close> decodes to 0, 255, 0 and 255, 0 is sent.
  Whenever the route answers 200 with a \<^verbatim>\<open>url\<close>, the PUT goes to that \<^verbatim>\<open>url\<close>,
  whatever the PUT is answered.
\<close>

theorem uploadInput_hex_payload:
  assumes "encoded \<noteq> []" and "list_all isHexDigit encoded"
  shows
  "fromHexString encoded = Inr (decodeHex encoded)
   \<and> (snd (uploadInput c net encoded tr)
         = tr @ [\<lparr>rq_verb = GET, rq_url = JStr (url c @ ''/inputs/upload''),
                   rq_headers = headers (client c), rq_body = NoBody\<rparr>]
      \<or> (\<exists>u. snd (uploadInput c net encoded tr)
         = tr @ [\<lparr>rq_verb = GET, rq_url = JStr (url c @ ''/inputs/upload''),
                   rq_headers = headers (client c), rq_body = NoBody\<rparr>,
                 \<lparr>rq_verb = PUT, rq_url = u, rq_headers = headers (client c),
                   rq_body = BytesBody (tl (decodeHex encoded))\<rparr>]))
   \<and> (net tr \<lparr>rq_verb = GET, rq_url = JStr (url c @ ''/inputs/upload''),
               rq_headers = headers (client c), rq_body = NoBody\<rparr>
         = Reply \<lparr>status = 200, raw = bs, data = JObj kvs\<rparr>
       \<and> map_of kvs ''url'' = Some u \<and> map_of kvs ''uuid'' = Some i
       \<and> net (tr @ [\<lparr>rq_verb = GET, rq_url = JStr (url c @ ''/inputs/upload''),
                       rq_headers = headers (client c), rq_body = NoBody\<rparr>])
              \<lparr>rq_verb = PUT, rq_url = u, rq_headers = headers (client c),
                rq_body = BytesBody (tl (decodeHex encoded))\<rparr> = Reply res
       \<and> 200 \<le> status res \<and> status res < 300
       \<longrightarrow> uploadInput c net encoded tr
             = (Inr i,
                tr @ [\<lparr>rq_verb = GET, rq_url = JStr (url c @ ''/inputs/upload''),
                        rq_headers = headers (client c), rq_body = NoBody\<rparr>,
                      \<lparr>rq_verb = PUT, rq_url = u, rq_headers = headers (client c),
                        rq_body = BytesBody (tl (decodeHex encoded))\<rparr>]))
   \<and> (encoded = ''00ff00'' \<longrightarrow> decodeHex encoded = [0, 255, 0] \<and> tl (decodeHex encoded) = [255, 0])
   \<and> (net tr \<lparr>rq_verb = GET, rq_url = JStr (url c @ ''/inputs/upload''),
               rq_headers = headers (client c), rq_body = NoBody\<rparr>
         = Reply \<lparr>status = 200, raw = bs, data = JObj kvs\<rparr>
       \<and> map_of kvs ''url'' = Some u
       \<longrightarrow> snd (uploadInput c net encoded tr)
             = tr @ [\<lparr>rq_verb = GET, rq_url = JStr (url c @ ''/inputs/upload''),
                       rq_headers = headers (client c), rq_body = NoBody\<rparr>,
                     \<lparr>rq_verb = PUT, rq_url = u, rq_headers = headers (client c),
                       rq_body = BytesBody (tl (decodeHex encoded))\<rparr>])"
proof -
  let ?g = "\<lparr>rq_verb = GET, rq_url = JStr (url c @ ''/inputs/upload''),
             rq_headers = headers (client c), rq_body = NoBody\<rparr>"
  let ?p = "\<lambda>w. \<lparr>rq_verb = PUT, rq_url = w, rq_headers = headers (client c),
                 rq_body = BytesBody (tl (decodeHex encoded))\<rparr>"
  have dec: "fromHexString encoded = Inr (decodeHex encoded)"
    using assms by (rule fromHexString_hex)
  have unf: "uploadInput c net encoded tr =
     (case getUploadUrl c net ''inputs'' tr of
        (Inl e, tr') \<Rightarrow> (Inl e, tr')
      | (Inr uploadData, tr') \<Rightarrow>
          (case getProp uploadData ''url'' of
             Inl e \<Rightarrow> (Inl e, tr')
           | Inr w \<Rightarrow>
               (case putData c net w (BytesBody (tl (decodeHex encoded))) tr' of
                  (Inl e, tr'') \<Rightarrow> (Inl e, tr'')
                | (Inr _, tr'') \<Rightarrow> (getProp uploadData ''uuid'', tr''))))"
    by (simp add: uploadInput_def io_defs dec Let_def split: prod.splits sum.splits)
  have gt: "snd (getUploadUrl c net ''inputs'' tr) = tr @ [?g]"
    using getUploadUrl_trace [of c net "''inputs''" tr] by simp
  have tr: "snd (uploadInput c net encoded tr) = tr @ [?g]
            \<or> (\<exists>w. snd (uploadInput c net encoded tr) = tr @ [?g, ?p w])"
  proof (cases "getUploadUrl c net ''inputs'' tr")
    case (Pair r tr')
    with gt have tr': "tr' = tr @ [?g]" by simp
    show ?thesis
    proof (cases r)
      case (Inl e)
      with Pair tr' unf show ?thesis by simp
    next
      case (Inr uploadData)
      show ?thesis
      proof (cases "getProp uploadData ''url''")
        case (Inl e)
        with Pair Inr tr' unf show ?thesis by simp
      next
        case w: (Inr w)
        have "snd (putData c net w (BytesBody (tl (decodeHex encoded))) tr') = tr' @ [?p w]"
          by (rule putData_trace)
        then have "snd (uploadInput c net encoded tr) = tr @ [?g, ?p w]"
          using Pair Inr w tr' unf by (auto split: prod.splits sum.splits)
        then show ?thesis by blast
      qed
    qed
  qed
  have ok: "uploadInput c net encoded tr = (Inr i, tr @ [?g, ?p u])"
    if g: "net tr ?g = Reply \<lparr>status = 200, raw = bs, data = JObj kvs\<rparr>"
      and u: "map_of kvs ''url'' = Some u" and i: "map_of kvs ''uuid'' = Some i"
      and p: "net (tr @ [?g]) (?p u) = Reply res" and s: "200 \<le> status res" "status res < 300"
  proof -
    have 1: "getUploadUrl c net ''inputs'' tr = (Inr (JObj kvs), tr @ [?g])"
      using getUploadUrl_ok [of net tr c "''inputs''" "\<lparr>status = 200, raw = bs, data = JObj kvs\<rparr>"] g
      by simp
    have 2: "putData c net u (BytesBody (tl (decodeHex encoded))) (tr @ [?g]) = (Inr (), tr @ [?g] @ [?p u])"
      using p s by (simp add: putData_ok)
    show ?thesis
      using 1 2 u i by (simp add: unf getProp_obj)
  qed
  have ex: "decodeHex ''00ff00'' = [0, 255, 0]"
    by (simp add: decodeHex_def hexByte_def hexVal_def)
  have sent: "snd (uploadInput c net encoded tr) = tr @ [?g, ?p u]"
    if g: "net tr ?g = Reply \<lparr>status = 200, raw = bs, data = JObj kvs\<rparr>"
      and u: "map_of kvs ''url'' = Some u"
  proof -
    have 1: "getUploadUrl c net ''inputs'' tr = (Inr (JObj kvs), tr @ [?g])"
      using getUploadUrl_ok [of net tr c "''inputs''" "\<lparr>status = 200, raw = bs, data = JObj kvs\<rparr>"] g
      by simp
    have 2: "snd (putData c net u (BytesBody (tl (decodeHex encoded))) (tr @ [?g]))
               = (tr @ [?g]) @ [?p u]"
      by (rule putData_trace)
    show ?thesis
      using 1 2 u by (auto simp: unf getProp_obj split: prod.splits sum.splits)
  qed
  from dec tr ok ex sent show ?thesis by auto
qed

theorem uploadInput_hex_payload_witness:
  "uploadInput \<lparr>url = ''https://api.example'', client = \<lparr>timeout = None, headers = []\<rparr>\<rparr>
      (\<lambda>tr rq. if rq_verb rq = GET
                 then Reply \<lparr>status = 200, raw = [],
                              data = JObj [(''url'', JStr ''https://put''), (''uuid'', JStr ''id-1'')]\<rparr>
                 else Reply \<lparr>status = 200, raw = [], data = JStr []\<rparr>)
      ''00ff00'' []
     = (Inr (JStr ''id-1''),
        [\<lparr>rq_verb = GET, rq_url = JStr ''https://api.example/inputs/upload'', rq_headers = [],
          rq_body = NoBody\<rparr>,
         \<lparr>rq_verb = PUT, rq_url = JStr ''https://put'', rq_headers = [],
          rq_body = BytesBody [255, 0]\<rparr>])
   \<and> fromHexString ''00ff00'' = Inr [0, 255, 0]"
  using uploadInput_hex_payload
          [of "''00ff00''"
              "\<lparr>url = ''https://api.example'', client = \<lparr>timeout = None, headers = []\<rparr>\<rparr>"
              "(\<lambda>tr rq. if rq_verb rq = GET
                 then Reply \<lparr>status = 200, raw = [],
                              data = JObj [(''url'', JStr ''https://put''), (''uuid'', JStr ''id-1'')]\<rparr>
                 else Reply \<lparr>status = 200, raw = [], data = JStr []\<rparr>)"
              "[]" "[]" "[(''url'', JStr ''https://put''), (''uuid'', JStr ''id-1'')]"
              "JStr ''https://put''" "JStr ''id-1''" "\<lparr>status = 200, raw = [], data = JStr []\<rparr>"]
  by (simp add: isHexDigit_def)

text \<open>
  The claim as stated, for every hex string, fails at the empty string: nothing is sent
  and no identifier is returned, although the server would answer every request.
\<close>

theorem uploadInput_empty_counterexample:
  "list_all isHexDigit []
   \<and> uploadInput \<lparr>url = ''https://api.example'', client = \<lparr>timeout = None, headers = []\<rparr>\<rparr>
      (\<lambda>tr rq. if rq_verb rq = GET
                 then Reply \<lparr>status = 200, raw = [],
                              data = JObj [(''url'', JStr ''https://put''), (''uuid'', JStr ''id-1'')]\<rparr>
                 else Reply \<lparr>status = 200, raw = [], data = JStr []\<rparr>)
      [] []
     = (Inl TypeError, [])"
  by (simp add: uploadInput_def io_defs fromHexString_def str_match_def)

text \<open>
  Claim C10. For the empty string, and for any string the pattern does not match (one
  made of line terminators only), \<^verbatim>\<open>uploadInput\<close> throws a \<^verbatim>\<open>TypeError\<close> before
  any request is made: the list of requests is unchanged. Decoding throws in no other
  case.
\<close>

theorem uploadInput_unmatched_throws:
  "(matchPairs encoded = [] \<longrightarrow> uploadInput c net encoded tr = (Inl TypeError, tr))
   \<and> (matchPairs encoded = [] \<longleftrightarrow> list_all isLineTerminator encoded)
   \<and> (fromHexString encoded = Inl TypeError \<longleftrightarrow> matchPairs encoded = [])
   \<and> uploadInput c net [] tr = (Inl TypeError, tr)"
proof -
  have 1: "fromHexString encoded = Inl TypeError \<longleftrightarrow> matchPairs encoded = []"
    by (simp add: fromHexString_def str_match_def)
  have 2: "uploadInput c net s tr = (Inl TypeError, tr)" if "matchPairs s = []" for s
    using fromHexString_unmatched [OF that] by (simp add: uploadInput_def io_defs)
  from 1 2 [of encoded] 2 [of "[]"] matchPairs_Nil_iff [of encoded] show ?thesis
    by simp
qed

theorem uploadInput_unmatched_witness:
  "uploadInput \<lparr>url = ''https://api.example'', client = \<lparr>timeout = None, headers = []\<rparr>\<rparr>
      (\<lambda>tr rq. Reply \<lparr>status = 200, raw = [],
                         data = JObj [(''url'', JStr ''https://put''), (''uuid'', JStr ''id'')]\<rparr>)
      [CHR 0x0A] []
     = (Inl TypeError, [])
   \<and> uploadInput \<lparr>url = ''https://api.example'', client = \<lparr>timeout = None, headers = []\<rparr>\<rparr>
      (\<lambda>tr rq. Reply \<lparr>status = 200, raw = [],
                         data = JObj [(''url'', JStr ''https://put''), (''uuid'', JStr ''id'')]\<rparr>)
      [] []
     = (Inl TypeError, [])"
  using uploadInput_unmatched_throws
          [of "[CHR 0x0A]" "\<lparr>url = ''https://api.example'', client = \<lparr>timeout = None, headers = []\<rparr>\<rparr>"
              "(\<lambda>tr rq. Reply \<lparr>status = 200, raw = [],
                         data = JObj [(''url'', JStr ''https://put''), (''uuid'', JStr ''id'')]\<rparr>)"
              "[]"]
  by (simp add: isLineTerminator_def)

text \<open>
  Claim C6. \<^verbatim>\<open>receiptDownload\<close> fails with \<^verbatim>\<open>SdkErr("ReceiptNotFound")\<close> exactly
  when the lookup is answered with 404. Any other status outside 200 to 299 gives an
  \<^verbatim>\<open>InternalServerError\<close> whose message carries the body: the body itself when it is
  a string and its JSON text otherwise, as the specification's wording
  \<^verbatim>\<open>stringifiedBody\<close> has it (the array 1, null, true reads \<^verbatim>\<open>[1,null,true]\<close>). On
  a status from 200 to 299 whose body has a \<^verbatim>\<open>url\<close> to read, a second GET always goes
  to that \<^verbatim>\<open>url\<close>, whatever it is answered: when it is answered with a status from
  200 to 299 (or with the status 0) its octets are the result, unchanged; any other
  status, or no answer at all, gives \<^verbatim>\<open>SdkErr("Download failed: ...")\<close>. A lookup
  that gets no answer fails with the error of axios, and a body of a successful lookup
  that is \<^verbatim>\<open>null\<close> or \<^verbatim>\<open>undefined\<close> gives a \<^verbatim>\<open>TypeError\<close>; in both cases
  the lookup is the only request.
\<close>

theorem receiptDownload_outcomes:
  assumes "toStr (uuid sessionId) = Inr i"
  shows
  "(fst (receiptDownload c net sessionId tr) = Inl (SdkErr ''ReceiptNotFound'')
      \<longleftrightarrow> (\<exists>r. net tr \<lparr>rq_verb = GET, rq_url = JStr (url c @ ''/receipts/'' @ i),
                        rq_headers = headers (client c), rq_body = NoBody\<rparr> = Reply r
               \<and> status r = 404))
   \<and> (net tr \<lparr>rq_verb = GET, rq_url = JStr (url c @ ''/receipts/'' @ i),
               rq_headers = headers (client c), rq_body = NoBody\<rparr> = Reply res
       \<and> status res = 404
       \<longrightarrow> receiptDownload c net sessionId tr
             = (Inl (SdkErr ''ReceiptNotFound''),
                tr @ [\<lparr>rq_verb = GET, rq_url = JStr (url c @ ''/receipts/'' @ i),
                        rq_headers = headers (client c), rq_body = NoBody\<rparr>]))
   \<and> (net tr \<lparr>rq_verb = GET, rq_url = JStr (url c @ ''/receipts/'' @ i),
               rq_headers = headers (client c), rq_body = NoBody\<rparr> = Reply res
       \<and> (status res < 200 \<or> 300 \<le> status res) \<and> status res \<noteq> 404
       \<longrightarrow> receiptDownload c net sessionId tr
             = (Inl (InternalServerError (''Internal server error: '' @ bodyText (data res))),
                tr @ [\<lparr>rq_verb = GET, rq_url = JStr (url c @ ''/receipts/'' @ i),
                        rq_headers = headers (client c), rq_body = NoBody\<rparr>]))
   \<and> (net tr \<lparr>rq_verb = GET, rq_url = JStr (url c @ ''/receipts/'' @ i),
               rq_headers = headers (client c), rq_body = NoBody\<rparr> = Reply res
       \<and> 200 \<le> status res \<and> status res < 300
       \<and> data res = JObj kvs \<and> map_of kvs ''url'' = Some u
       \<and> net (tr @ [\<lparr>rq_verb = GET, rq_url = JStr (url c @ ''/receipts/'' @ i),
                       rq_headers = headers (client c), rq_body = NoBody\<rparr>])
              \<lparr>rq_verb = GET, rq_url = u, rq_headers = headers (client c), rq_body = NoBody\<rparr>
            = Reply res2
       \<and> 200 \<le> status res2 \<and> status res2 < 300
       \<longrightarrow> receiptDownload c net sessionId tr
             = (Inr (raw res2),
                tr @ [\<lparr>rq_verb = GET, rq_url = JStr (url c @ ''/receipts/'' @ i),
                        rq_headers = headers (client c), rq_body = NoBody\<rparr>,
                      \<lparr>rq_verb = GET, rq_url = u, rq_headers = headers (client c),
                        rq_body = NoBody\<rparr>]))
   \<and> bodyText (JStr s) = s
   \<and> SdkErr ''ReceiptNotFound'' \<noteq> InternalServerError m
   \<and> (net tr \<lparr>rq_verb = GET, rq_url = JStr (url c @ ''/receipts/'' @ i),
               rq_headers = headers (client c), rq_body = NoBody\<rparr> = Reply res
       \<and> (status res < 200 \<or> 300 \<le> status res) \<and> status res \<noteq> 404
       \<longrightarrow> receiptDownload c net sessionId tr
             = (Inl (InternalServerError (''Internal server error: '' @ stringifiedBody (data res))),
                tr @ [\<lparr>rq_verb = GET, rq_url = JStr (url c @ ''/receipts/'' @ i),
                        rq_headers = headers (client c), rq_body = NoBody\<rparr>]))
   \<and> (net tr \<lparr>rq_verb = GET, rq_url = JStr (url c @ ''/receipts/'' @ i),
               rq_headers = headers (client c), rq_body = NoBody\<rparr> = Reply res
       \<and> 200 \<le> status res \<and> status res < 300 \<and> getProp (data res) ''url'' = Inr w
       \<longrightarrow> snd (receiptDownload c net sessionId tr)
             = tr @ [\<lparr>rq_verb = GET, rq_url = JStr (url c @ ''/receipts/'' @ i),
                       rq_headers = headers (client c), rq_body = NoBody\<rparr>,
                     \<lparr>rq_verb = GET, rq_url = w, rq_headers = headers (client c),
                       rq_body = NoBody\<rparr>]
           \<and> fst (receiptDownload c net sessionId tr)
             = (case net (tr @ [\<lparr>rq_verb = GET, rq_url = JStr (url c @ ''/receipts/'' @ i),
                                  rq_headers = headers (client c), rq_body = NoBody\<rparr>])
                         \<lparr>rq_verb = GET, rq_url = w, rq_headers = headers (client c),
                           rq_body = NoBody\<rparr> of
                  NoReply msg \<Rightarrow> Inl (SdkErr (''Download failed: '' @ msg))
                | Reply r2 \<Rightarrow>
                    if status r2 = 0 \<or> (200 \<le> status r2 \<and> status r2 < 300) then Inr (raw r2)
                    else Inl (SdkErr (''Download failed: Request failed with status code ''
                                      @ showNat (status r2)))))
   \<and> (net tr \<lparr>rq_verb = GET, rq_url = JStr (url c @ ''/receipts/'' @ i),
               rq_headers = headers (client c), rq_body = NoBody\<rparr> = NoReply msg
       \<longrightarrow> receiptDownload c net sessionId tr
             = (Inl (AxiosError msg None),
                tr @ [\<lparr>rq_verb = GET, rq_url = JStr (url c @ ''/receipts/'' @ i),
                        rq_headers = headers (client c), rq_body = NoBody\<rparr>]))
   \<and> (net tr \<lparr>rq_verb = GET, rq_url = JStr (url c @ ''/receipts/'' @ i),
               rq_headers = headers (client c), rq_body = NoBody\<rparr> = Reply res
       \<and> 200 \<le> status res \<and> status res < 300 \<and> getProp (data res) ''url'' = Inl e
       \<longrightarrow> receiptDownload c net sessionId tr
             = (Inl TypeError,
                tr @ [\<lparr>rq_verb = GET, rq_url = JStr (url c @ ''/receipts/'' @ i),
                        rq_headers = headers (client c), rq_body = NoBody\<rparr>]))
   \<and> stringifiedBody (JStr s) = s
   \<and> stringifiedBody (JArr [JNum ''1'', JNull, JBool True]) = ''[1,null,true]''
   \<and> stringifiedBody (JObj [(''error'', JStr ''no quota''), (''hint'', JUndefined),
                            (''code'', JNum ''42'')])
       = ''{'' @ [CHR 0x22] @ ''error'' @ [CHR 0x22] @ '':'' @ [CHR 0x22] @ ''no quota''
         @ [CHR 0x22] @ '','' @ [CHR 0x22] @ ''code'' @ [CHR 0x22] @ '':42}''"
proof -
  let ?g = "\<lparr>rq_verb = GET, rq_url = JStr (url c @ ''/receipts/'' @ i),
             rq_headers = headers (client c), rq_body = NoBody\<rparr>"
  let ?g2 = "\<lambda>x. \<lparr>rq_verb = GET, rq_url = x, rq_headers = headers (client c), rq_body = NoBody\<rparr>"
  have unf: "receiptDownload c net sessionId tr =
     (case axios_call (client c) (\<lambda>_. True) net GET (JStr (url c @ ''/receipts/'' @ i)) NoBody tr of
        (Inl e, tr') \<Rightarrow> (Inl e, tr')
      | (Inr r, tr') \<Rightarrow>
          if status r < 200 \<or> 300 \<le> status r then
            (if status r = 404 then (Inl (SdkErr ''ReceiptNotFound''), tr')
             else (Inl (InternalServerError (''Internal server error: '' @ bodyText (data r))), tr'))
          else (case getProp (data r) ''url'' of
                  Inl e \<Rightarrow> (Inl e, tr')
                | Inr w \<Rightarrow> download c net w tr'))"
    using assms by (simp add: receiptDownload_def io_defs split: prod.splits sum.splits)
  have dl: "fst (download c net x tr') \<noteq> Inl (SdkErr ''ReceiptNotFound'')" for x tr'
    by (auto simp: download_def split: prod.splits sum.splits)
  have nf: "receiptDownload c net sessionId tr = (Inl (SdkErr ''ReceiptNotFound''), tr @ [?g])"
    if "net tr ?g = Reply r" "status r = 404" for r
    using that by (simp add: unf axios_call_resolved)
  have ise: "receiptDownload c net sessionId tr
               = (Inl (InternalServerError (''Internal server error: '' @ bodyText (data r))), tr @ [?g])"
    if "net tr ?g = Reply r" "status r < 200 \<or> 300 \<le> status r" "status r \<noteq> 404" for r
    using that by (simp add: unf axios_call_resolved)
  have ise2: "receiptDownload c net sessionId tr
               = (Inl (InternalServerError (''Internal server error: '' @ stringifiedBody (data r))),
                  tr @ [?g])"
    if "net tr ?g = Reply r" "status r < 200 \<or> 300 \<le> status r" "status r \<noteq> 404" for r
    using ise [OF that] by (simp add: bodyText_stringifiedBody)
  have ok: "receiptDownload c net sessionId tr = (Inr (raw res2), tr @ [?g, ?g2 u])"
    if "net tr ?g = Reply res" "200 \<le> status res" "status res < 300"
       "data res = JObj kvs" "map_of kvs ''url'' = Some u"
       "net (tr @ [?g]) (?g2 u) = Reply res2"
       "200 \<le> status res2" "status res2 < 300"
    using that
    by (simp add: unf axios_call_resolved getProp_obj download_def axios_request_resolved
        defaultValidateStatus_def)
  have follow: "snd (receiptDownload c net sessionId tr) = tr @ [?g, ?g2 w]
           \<and> fst (receiptDownload c net sessionId tr)
             = (case net (tr @ [?g]) (?g2 w) of
                  NoReply msg \<Rightarrow> Inl (SdkErr (''Download failed: '' @ msg))
                | Reply r2 \<Rightarrow>
                    if status r2 = 0 \<or> (200 \<le> status r2 \<and> status r2 < 300) then Inr (raw r2)
                    else Inl (SdkErr (''Download failed: Request failed with status code ''
                                      @ showNat (status r2))))"
    if "net tr ?g = Reply res" "200 \<le> status res" "status res < 300"
       "getProp (data res) ''url'' = Inr w"
  proof -
    have 1: "receiptDownload c net sessionId tr = download c net w (tr @ [?g])"
      using that by (simp add: unf axios_call_resolved)
    show ?thesis
      unfolding 1
      by (simp add: download_def axios_request_def defaultValidateStatus_def Let_def
          split: reply.splits)
  qed
  have nr: "receiptDownload c net sessionId tr = (Inl (AxiosError msg None), tr @ [?g])"
    if "net tr ?g = NoReply msg"
    using that by (simp add: unf axios_call_no_reply)
  have iff: "fst (receiptDownload c net sessionId tr) = Inl (SdkErr ''ReceiptNotFound'')
      \<longleftrightarrow> (\<exists>r. net tr ?g = Reply r \<and> status r = 404)"
  proof (cases "net tr ?g")
    case (NoReply msg)
    then show ?thesis by (simp add: unf axios_call_no_reply)
  next
    case (Reply r)
    show ?thesis
    proof (cases "status r = 404")
      case True
      with Reply nf [of r] show ?thesis by simp
    next
      case False
      have "fst (receiptDownload c net sessionId tr) \<noteq> Inl (SdkErr ''ReceiptNotFound'')"
        using Reply False dl getProp_error [of "data r" "''url''"]
        by (auto simp: unf axios_call_resolved split: sum.splits)
      with Reply False show ?thesis by simp
    qed
  qed
  have bt: "bodyText (JStr s) = s" by (simp add: bodyText_def)
  have a: "(net tr ?g = Reply res \<and> status res = 404
       \<longrightarrow> receiptDownload c net sessionId tr = (Inl (SdkErr ''ReceiptNotFound''), tr @ [?g]))"
    using nf [of res] by blast
  have b: "(net tr ?g = Reply res \<and> (status res < 200 \<or> 300 \<le> status res) \<and> status res \<noteq> 404
       \<longrightarrow> receiptDownload c net sessionId tr
             = (Inl (InternalServerError (''Internal server error: '' @ bodyText (data res))),
                tr @ [?g]))"
    using ise [of res] by blast
  have b2: "(net tr ?g = Reply res \<and> (status res < 200 \<or> 300 \<le> status res) \<and> status res \<noteq> 404
       \<longrightarrow> receiptDownload c net sessionId tr
             = (Inl (InternalServerError (''Internal server error: '' @ stringifiedBody (data res))),
                tr @ [?g]))"
    using ise2 [of res] by blast
  have d: "(net tr ?g = Reply res \<and> 200 \<le> status res \<and> status res < 300
       \<and> data res = JObj kvs \<and> map_of kvs ''url'' = Some u
       \<and> net (tr @ [?g]) (?g2 u) = Reply res2 \<and> 200 \<le> status res2 \<and> status res2 < 300
       \<longrightarrow> receiptDownload c net sessionId tr = (Inr (raw res2), tr @ [?g, ?g2 u]))"
    using ok by blast
  have f: "(net tr ?g = Reply res \<and> 200 \<le> status res \<and> status res < 300
       \<and> getProp (data res) ''url'' = Inr w
       \<longrightarrow> snd (receiptDownload c net sessionId tr) = tr @ [?g, ?g2 w]
           \<and> fst (receiptDownload c net sessionId tr)
             = (case net (tr @ [?g]) (?g2 w) of
                  NoReply msg \<Rightarrow> Inl (SdkErr (''Download failed: '' @ msg))
                | Reply r2 \<Rightarrow>
                    if status r2 = 0 \<or> (200 \<le> status r2 \<and> status r2 < 300) then Inr (raw r2)
                    else Inl (SdkErr (''Download failed: Request failed with status code ''
                                      @ showNat (status r2)))))"
    using follow by blast
  have te: "(net tr ?g = Reply res \<and> 200 \<le> status res \<and> status res < 300
       \<and> getProp (data res) ''url'' = Inl e
       \<longrightarrow> receiptDownload c net sessionId tr = (Inl TypeError, tr @ [?g]))"
    using getProp_error [of "data res" "''url''" e] by (auto simp: unf axios_call_resolved)
  have sb: "stringifiedBody (JStr s) = s" by (simp add: stringifiedBody_def)
  have n: "(net tr ?g = NoReply msg
       \<longrightarrow> receiptDownload c net sessionId tr = (Inl (AxiosError msg None), tr @ [?g]))"
    using nr by blast
  show ?thesis
    by (intro conjI iff a b d bt b2 f n te sb stringifiedBody_array stringifiedBody_object) simp
qed

theorem receiptDownload_outcomes_witness:
  "receiptDownload \<lparr>url = ''https://api.example'', client = \<lparr>timeout = None, headers = []\<rparr>\<rparr>
      (\<lambda>tr rq. Reply \<lparr>status = 404, raw = [], data = JStr ''no such receipt''\<rparr>)
      (SessionId (JStr ''s-1'')) []
     = (Inl (SdkErr ''ReceiptNotFound''),
        [\<lparr>rq_verb = GET, rq_url = JStr ''https://api.example/receipts/s-1'', rq_headers = [],
          rq_body = NoBody\<rparr>])
   \<and> receiptDownload \<lparr>url = ''https://api.example'', client = \<lparr>timeout = None, headers = []\<rparr>\<rparr>
      (\<lambda>tr rq. Reply \<lparr>status = 500, raw = [], data = JStr ''boom''\<rparr>)
      (SessionId (JStr ''s-1'')) []
     = (Inl (InternalServerError ''Internal server error: boom''),
        [\<lparr>rq_verb = GET, rq_url = JStr ''https://api.example/receipts/s-1'', rq_headers = [],
          rq_body = NoBody\<rparr>])
   \<and> receiptDownload \<lparr>url = ''https://api.example'', client = \<lparr>timeout = None, headers = []\<rparr>\<rparr>
      (\<lambda>tr rq. Reply \<lparr>status = 500, raw = [],
                         data = JObj [(''error'', JStr ''boom''), (''code'', JNum ''7''),
                                      (''tags'', JArr [JNull, JBool True])]\<rparr>)
      (SessionId (JStr ''s-1'')) []
     = (Inl (InternalServerError
               (''Internal server error: {'' @ [CHR 0x22] @ ''error'' @ [CHR 0x22] @ '':''
                @ [CHR 0x22] @ ''boom'' @ [CHR 0x22] @ '','' @ [CHR 0x22] @ ''code'' @ [CHR 0x22]
                @ '':7,'' @ [CHR 0x22] @ ''tags'' @ [CHR 0x22] @ '':[null,true]}'')),
        [\<lparr>rq_verb = GET, rq_url = JStr ''https://api.example/receipts/s-1'', rq_headers = [],
          rq_body = NoBody\<rparr>])
   \<and> receiptDownload \<lparr>url = ''https://api.example'', client = \<lparr>timeout = None, headers = []\<rparr>\<rparr>
      (\<lambda>tr rq. if tr = []
                 then Reply \<lparr>status = 200, raw = [], data = JObj [(''url'', JStr ''https://y'')]\<rparr>
                 else Reply \<lparr>status = 200, raw = [1, 2, 3], data = JUndefined\<rparr>)
      (SessionId (JStr ''s-1'')) []
     = (Inr [1, 2, 3],
        [\<lparr>rq_verb = GET, rq_url = JStr ''https://api.example/receipts/s-1'', rq_headers = [],
          rq_body = NoBody\<rparr>,
         \<lparr>rq_verb = GET, rq_url = JStr ''https://y'', rq_headers = [], rq_body = NoBody\<rparr>])
   \<and> receiptDownload \<lparr>url = ''https://api.example'', client = \<lparr>timeout = None, headers = []\<rparr>\<rparr>
      (\<lambda>tr rq. if tr = []
                 then Reply \<lparr>status = 200, raw = [], data = JObj [(''url'', JStr ''https://y'')]\<rparr>
                 else Reply \<lparr>status = 403, raw = [9], data = JStr ''expired''\<rparr>)
      (SessionId (JStr ''s-1'')) []
     = (Inl (SdkErr ''Download failed: Request failed with status code 403''),
        [\<lparr>rq_verb = GET, rq_url = JStr ''https://api.example/receipts/s-1'', rq_headers = [],
          rq_body = NoBody\<rparr>,
         \<lparr>rq_verb = GET, rq_url = JStr ''https://y'', rq_headers = [], rq_body = NoBody\<rparr>])
   \<and> receiptDownload \<lparr>url = ''https://api.example'', client = \<lparr>timeout = None, headers = []\<rparr>\<rparr>
      (\<lambda>tr rq. NoReply ''Network Error'')
      (SessionId (JStr ''s-1'')) []
     = (Inl (AxiosError ''Network Error'' None),
        [\<lparr>rq_verb = GET, rq_url = JStr ''https://api.example/receipts/s-1'', rq_headers = [],
          rq_body = NoBody\<rparr>])"
proof -
  let ?c = "\<lparr>url = ''https://api.example'', client = \<lparr>timeout = None, headers = []\<rparr>\<rparr>"
  let ?sid = "SessionId (JStr ''s-1'')"
  let ?n404 = "\<lambda>(tr :: request list) (rq :: request).
                 Reply \<lparr>status = 404, raw = [], data = JStr ''no such receipt''\<rparr>"
  let ?n500 = "\<lambda>(tr :: request list) (rq :: request).
                 Reply \<lparr>status = 500, raw = [], data = JStr ''boom''\<rparr>"
  let ?j = "JObj [(''error'', JStr ''boom''), (''code'', JNum ''7''),
                  (''tags'', JArr [JNull, JBool True])]"
  let ?n500j = "\<lambda>(tr :: request list) (rq :: request). Reply \<lparr>status = 500, raw = [], data = ?j\<rparr>"
  let ?nok = "\<lambda>(tr :: request list) (rq :: request). if tr = []
                 then Reply \<lparr>status = 200, raw = [], data = JObj [(''url'', JStr ''https://y'')]\<rparr>
                 else Reply \<lparr>status = 200, raw = [1, 2, 3], data = JUndefined\<rparr>"
  let ?n403 = "\<lambda>(tr :: request list) (rq :: request). if tr = []
                 then Reply \<lparr>status = 200, raw = [], data = JObj [(''url'', JStr ''https://y'')]\<rparr>
                 else Reply \<lparr>status = 403, raw = [9], data = JStr ''expired''\<rparr>"
  let ?nno = "\<lambda>(tr :: request list) (rq :: request). NoReply ''Network Error''"
  have i: "toStr (uuid ?sid) = Inr ''s-1''" by simp
  have js: "stringifiedBody ?j
              = ''{'' @ [CHR 0x22] @ ''error'' @ [CHR 0x22] @ '':''
                @ [CHR 0x22] @ ''boom'' @ [CHR 0x22] @ '','' @ [CHR 0x22] @ ''code'' @ [CHR 0x22]
                @ '':7,'' @ [CHR 0x22] @ ''tags'' @ [CHR 0x22] @ '':[null,true]}''"
    by (simp add: stringifiedBody_def commaSep_def jsonQuoted_def jsonEscape_def)
  have ss: "stringifiedBody (JStr ''boom'') = ''boom''" by (simp add: stringifiedBody_def)
  have gp: "getProp (JObj [(''url'', JStr ''https://y'')]) ''url'' = Inr (JStr ''https://y'')"
    by (simp add: getProp_def)
  note t = receiptDownload_outcomes [OF i]
  have 1: "receiptDownload ?c ?n404 ?sid []
     = (Inl (SdkErr ''ReceiptNotFound''),
        [\<lparr>rq_verb = GET, rq_url = JStr ''https://api.example/receipts/s-1'', rq_headers = [],
          rq_body = NoBody\<rparr>])"
    using t [where c = ?c and net = ?n404 and tr = "[]"
                 and res = "\<lparr>status = 404, raw = [], data = JStr ''no such receipt''\<rparr>"]
    by simp
  have 2: "receiptDownload ?c ?n500 ?sid []
     = (Inl (InternalServerError ''Internal server error: boom''),
        [\<lparr>rq_verb = GET, rq_url = JStr ''https://api.example/receipts/s-1'', rq_headers = [],
          rq_body = NoBody\<rparr>])"
    using t [where c = ?c and net = ?n500 and tr = "[]"
                 and res = "\<lparr>status = 500, raw = [], data = JStr ''boom''\<rparr>"] ss
    by (simp add: bodyText_stringifiedBody)
  have 3: "receiptDownload ?c ?n500j ?sid []
     = (Inl (InternalServerError
               (''Internal server error: {'' @ [CHR 0x22] @ ''error'' @ [CHR 0x22] @ '':''
                @ [CHR 0x22] @ ''boom'' @ [CHR 0x22] @ '','' @ [CHR 0x22] @ ''code'' @ [CHR 0x22]
                @ '':7,'' @ [CHR 0x22] @ ''tags'' @ [CHR 0x22] @ '':[null,true]}'')),
        [\<lparr>rq_verb = GET, rq_url = JStr ''https://api.example/receipts/s-1'', rq_headers = [],
          rq_body = NoBody\<rparr>])"
    using t [where c = ?c and net = ?n500j and tr = "[]"
                 and res = "\<lparr>status = 500, raw = [], data = ?j\<rparr>"] js
    by (simp add: bodyText_stringifiedBody)
  have 4: "receiptDownload ?c ?nok ?sid []
     = (Inr [1, 2, 3],
        [\<lparr>rq_verb = GET, rq_url = JStr ''https://api.example/receipts/s-1'', rq_headers = [],
          rq_body = NoBody\<rparr>,
         \<lparr>rq_verb = GET, rq_url = JStr ''https://y'', rq_headers = [], rq_body = NoBody\<rparr>])"
    using t [where c = ?c and net = ?nok and tr = "[]"
                 and res = "\<lparr>status = 200, raw = [], data = JObj [(''url'', JStr ''https://y'')]\<rparr>"
                 and kvs = "[(''url'', JStr ''https://y'')]" and u = "JStr ''https://y''"
                 and ?res2.0 = "\<lparr>status = 200, raw = [1, 2, 3], data = JUndefined\<rparr>"]
    by simp
  have 5: "receiptDownload ?c ?n403 ?sid []
     = (Inl (SdkErr ''Download failed: Request failed with status code 403''),
        [\<lparr>rq_verb = GET, rq_url = JStr ''https://api.example/receipts/s-1'', rq_headers = [],
          rq_body = NoBody\<rparr>,
         \<lparr>rq_verb = GET, rq_url = JStr ''https://y'', rq_headers = [], rq_body = NoBody\<rparr>])"
    using t [where c = ?c and net = ?n403 and tr = "[]"
                 and res = "\<lparr>status = 200, raw = [], data = JObj [(''url'', JStr ''https://y'')]\<rparr>"
                 and w = "JStr ''https://y''"] gp showNat_403
    by (simp add: prod_eq_iff)
  have 6: "receiptDownload ?c ?nno ?sid []
     = (Inl (AxiosError ''Network Error'' None),
        [\<lparr>rq_verb = GET, rq_url = JStr ''https://api.example/receipts/s-1'', rq_headers = [],
          rq_body = NoBody\<rparr>])"
    using t [where c = ?c and net = ?nno and tr = "[]" and msg = "''Network Error''"]
    by simp
  from 1 2 3 4 5 6 show ?thesis by simp
qed

text \<open>
  Claim C5 does not hold of the code. When the status check is answered with 200 and
  \<^verbatim>\<open>{url: "https://x"}\<close>, \<^verbatim>\<open>getImageUploadUrl\<close> throws a \<^verbatim>\<open>TypeError\<close>
  (\<^verbatim>\<open>res.data\<close> is the parsed object and has no \<^verbatim>\<open>json\<close> method), so
  \<^verbatim>\<open>uploadImg\<close> sends no PUT and returns nothing; and a 500 is rejected by axios
  before the status test, so the error is an \<^verbatim>\<open>AxiosError\<close> and not an
  \<^verbatim>\<open>InternalServerError\<close>. The code evaluated at both responses:
\<close>

theorem getImageUploadUrl_new_image_evaluation:
  "getImageUploadUrl \<lparr>url = ''https://api.example'', client = \<lparr>timeout = None, headers = []\<rparr>\<rparr>
      (\<lambda>tr rq. Reply \<lparr>status = 200, raw = [], data = JObj [(''url'', JStr ''https://x'')]\<rparr>)
      ''img-1'' []
     = (Inl TypeError,
        [\<lparr>rq_verb = GET, rq_url = JStr ''https://api.example/images/upload/img-1'', rq_headers = [],
          rq_body = NoBody\<rparr>])
   \<and> uploadImg \<lparr>url = ''https://api.example'', client = \<lparr>timeout = None, headers = []\<rparr>\<rparr>
      (\<lambda>tr rq. Reply \<lparr>status = 200, raw = [], data = JObj [(''url'', JStr ''https://x'')]\<rparr>)
      ''img-1'' [1, 2, 3] []
     = (Inl TypeError,
        [\<lparr>rq_verb = GET, rq_url = JStr ''https://api.example/images/upload/img-1'', rq_headers = [],
          rq_body = NoBody\<rparr>])
   \<and> getImageUploadUrl \<lparr>url = ''https://api.example'', client = \<lparr>timeout = None, headers = []\<rparr>\<rparr>
      (\<lambda>tr rq. Reply \<lparr>status = 500, raw = [], data = JStr ''boom''\<rparr>)
      ''img-1'' []
     = (Inl (AxiosError ''Request failed with status code 500''
               (Some \<lparr>status = 500, raw = [], data = JStr ''boom''\<rparr>)),
        [\<lparr>rq_verb = GET, rq_url = JStr ''https://api.example/images/upload/img-1'', rq_headers = [],
          rq_body = NoBody\<rparr>])"
  by (simp add: getImageUploadUrl_def uploadImg_def io_defs axios_call_def axios_request_def
      defaultValidateStatus_def callMethod_def getProp_def showNat_500)

text \<open>
  Claim C7 does not hold of the code. When the status endpoint answers 500 with the body
  \<^verbatim>\<open>boom\<close>, \<^verbatim>\<open>status()\<close> of a session and of a SNARK fail with axios's
  \<^verbatim>\<open>AxiosError\<close>, not with an \<^verbatim>\<open>InternalServerError\<close> carrying the body:
  \<^verbatim>\<open>client.get\<close> is called without \<^verbatim>\<open>validateStatus\<close>, unlike
  \<^verbatim>\<open>receiptDownload\<close>. The code evaluated at that response:
\<close>

theorem status_server_error_evaluation:
  "SessionId_status (SessionId (JStr ''s-1''))
      \<lparr>url = ''https://api.example'', client = \<lparr>timeout = None, headers = []\<rparr>\<rparr>
      (\<lambda>tr rq. Reply \<lparr>status = 500, raw = [], data = JStr ''boom''\<rparr>) []
     = (Inl (AxiosError ''Request failed with status code 500''
               (Some \<lparr>status = 500, raw = [], data = JStr ''boom''\<rparr>)),
        [\<lparr>rq_verb = GET, rq_url = JStr ''https://api.example/sessions/status/s-1'', rq_headers = [],
          rq_body = NoBody\<rparr>])
   \<and> SnarkId_status (SnarkId (JStr ''s-1''))
      \<lparr>url = ''https://api.example'', client = \<lparr>timeout = None, headers = []\<rparr>\<rparr>
      (\<lambda>tr rq. Reply \<lparr>status = 500, raw = [], data = JStr ''boom''\<rparr>) []
     = (Inl (AxiosError ''Request failed with status code 500''
               (Some \<lparr>status = 500, raw = [], data = JStr ''boom''\<rparr>)),
        [\<lparr>rq_verb = GET, rq_url = JStr ''https://api.example/snark/status/s-1'', rq_headers = [],
          rq_body = NoBody\<rparr>])"
  by (simp add: SessionId_status_def SnarkId_status_def io_defs axios_call_def axios_request_def
      defaultValidateStatus_def showNat_500)

text \<open>
  Claim C8 does not hold of the code in one part. \<^verbatim>\<open>createSession\<close> and
  \<^verbatim>\<open>createSessionWithLimit\<close> with no limit agree (see above), but when the create
  endpoint answers 500 both fail with axios's \<^verbatim>\<open>AxiosError\<close>, not with an
  \<^verbatim>\<open>InternalServerError\<close> carrying the body. The code evaluated at that response:
\<close>

theorem createSession_server_error_evaluation:
  "createSession \<lparr>url = ''https://api.example'', client = \<lparr>timeout = None, headers = []\<rparr>\<rparr>
      (\<lambda>tr rq. Reply \<lparr>status = 500, raw = [], data = JStr ''boom''\<rparr>)
      ''img-1'' ''in-1'' [] False []
     = (Inl (AxiosError ''Request failed with status code 500''
               (Some \<lparr>status = 500, raw = [], data = JStr ''boom''\<rparr>)),
        [\<lparr>rq_verb = POST, rq_url = JStr ''https://api.example/sessions/create'', rq_headers = [],
          rq_body = JsonBody (JObj [(''img'', JStr ''img-1''), (''input'', JStr ''in-1''),
                                    (''assumptions'', JArr []), (''execute_only'', JBool False),
                                    (''exec_cycle_limit'', JUndefined)])\<rparr>])
   \<and> createSessionWithLimit
      \<lparr>url = ''https://api.example'', client = \<lparr>timeout = None, headers = []\<rparr>\<rparr>
      (\<lambda>tr rq. Reply \<lparr>status = 500, raw = [], data = JStr ''boom''\<rparr>)
      ''img-1'' ''in-1'' [] False None []
     = (Inl (AxiosError ''Request failed with status code 500''
               (Some \<lparr>status = 500, raw = [], data = JStr ''boom''\<rparr>)),
        [\<lparr>rq_verb = POST, rq_url = JStr ''https://api.example/sessions/create'', rq_headers = [],
          rq_body = JsonBody (JObj [(''img'', JStr ''img-1''), (''input'', JStr ''in-1''),
                                    (''assumptions'', JArr []), (''execute_only'', JBool False),
                                    (''exec_cycle_limit'', JUndefined)])\<rparr>])"
  by (simp add: createSession_def createSessionWithLimit_def io_defs axios_call_def
      axios_request_def defaultValidateStatus_def showNat_500)


end
